theory Spec2Isabelle
  imports Complex_Main
begin

section \<open>Errors\<close>

text \<open>
  Every \<^verbatim>\<open>raise\<close> of the modelled functions is one constructor. All of them
  are \<^verbatim>\<open>ValueError\<close> in the source unless the name says otherwise; the
  constructor's arguments are the values formatted into the message.
\<close>

datatype error =
    InvalidHeight int            \<comment> \<open>\<^verbatim>\<open>ValueError("invalid height: %d")\<close>\<close>
  | InvalidWidth int             \<comment> \<open>\<^verbatim>\<open>ValueError("invalid width: %d")\<close>\<close>
  | InvalidRowRange int int      \<comment> \<open>\<^verbatim>\<open>ValueError("invalid window: row range (%d, %d)")\<close>\<close>
  | InvalidColRange int int      \<comment> \<open>\<^verbatim>\<open>ValueError("invalid window: col range (%d, %d)")\<close>\<close>
  | InhomogeneousBlockShapes     \<comment> \<open>\<^verbatim>\<open>ValueError("A band index must be provided ...")\<close>\<close>
  | IndexError                   \<comment> \<open>a sequence read out of range\<close>
  | ZeroDivisionError            \<comment> \<open>\<^verbatim>\<open>divmod\<close> or division by zero\<close>
  | UnexpectedProjParameter string  \<comment> \<open>\<^verbatim>\<open>ValueError("Unexpected proj parameter %s")\<close>\<close>
  | NullDataset                  \<comment> \<open>\<^verbatim>\<open>ValueError("Null dataset")\<close>\<close>
  | NullProjection               \<comment> \<open>\<^verbatim>\<open>ValueError("Null projection")\<close>\<close>
  | NullSpatialReference         \<comment> \<open>\<^verbatim>\<open>ValueError("Unexpected NULL spatial reference")\<close>\<close>
  | ClosedDataset                \<comment> \<open>\<^verbatim>\<open>ValueError("can't read closed raster file")\<close>\<close>
  | BandIndexError               \<comment> \<open>\<^verbatim>\<open>IndexError\<close> for a band index\<close>
  | NullBand                     \<comment> \<open>\<^verbatim>\<open>ValueError("NULL band")\<close>\<close>
  | DtypeMismatch                \<comment> \<open>\<^verbatim>\<open>ValueError("band and output array dtypes do not match")\<close>\<close>
  | InvalidDtype                 \<comment> \<open>\<^verbatim>\<open>ValueError("Invalid dtype")\<close>\<close>
  | RasterioIOError              \<comment> \<open>the engine could not open the path\<close>
  | UnboundLocalError            \<comment> \<open>a local read before any assignment\<close>
  | TypeError                    \<comment> \<open>\<^verbatim>\<open>None\<close> where a number is needed\<close>
  | KeyError                     \<comment> \<open>a table read at a missing key\<close>
  | NegativeDimensions           \<comment> \<open>\<^verbatim>\<open>ValueError("negative dimensions are not allowed")\<close>\<close>
  | OverflowError                \<comment> \<open>a Python integer that does not fit a C \<^verbatim>\<open>int\<close>, or a
                                     floating-point result that is not finite\<close>

section \<open>Window utilities\<close>

text \<open>
  A window is \<^verbatim>\<open>((row_start, row_stop), (col_start, col_stop))\<close>. The argument
  of \<^verbatim>\<open>eval_window\<close> may hold \<^verbatim>\<open>None\<close> in any position; its result and
  the argument of \<^verbatim>\<open>crop_window\<close> hold integers only. A window that is not a
  pair of pairs is rejected before anything else; the types below hold the well-formed
  windows only.

  The bounds arrive as Python integers. The locals \<^verbatim>\<open>r_start, r_stop, c_start,
  c_stop\<close> and the parameters \<^verbatim>\<open>height, width\<close> are declared as C
  \<^verbatim>\<open>int\<close>, of 32 bits: the conversion of a Python integer outside that range raises
  \<^verbatim>\<open>OverflowError\<close>, for the parameters when the function is entered and for a
  bound when it is assigned to its local. The only arithmetic on the converted values
  adds a non-negative dimension to a negative bound, or takes a minimum or a maximum, so
  it cannot wrap around.
\<close>

type_synonym window = "(int \<times> int) \<times> (int \<times> int)"
type_synonym window_arg = "(int option \<times> int option) \<times> (int option \<times> int option)"

definition c_int :: "int \<Rightarrow> bool" where
  "c_int v \<longleftrightarrow> - (2 ^ 31) \<le> v \<and> v < 2 ^ 31"

text \<open>
  Python's \<^verbatim>\<open>x or d\<close> for \<^verbatim>\<open>x\<close> an integer or \<^verbatim>\<open>None\<close>:
  \<^verbatim>\<open>d\<close> when \<^verbatim>\<open>x\<close> is falsy (\<^verbatim>\<open>None\<close> or \<^verbatim>\<open>0\<close>), else
  \<^verbatim>\<open>x\<close>.
\<close>

definition py_or :: "int option \<Rightarrow> int \<Rightarrow> int" where
  "py_or x d = (case x of None \<Rightarrow> d | Some v \<Rightarrow> if v = 0 then d else v)"

definition crop_window :: "window \<Rightarrow> int \<Rightarrow> int \<Rightarrow> error + window" where
  "crop_window window height width =
     (if c_int height \<and> c_int width then
        case window of ((r_start, r_stop), (c_start, c_stop)) \<Rightarrow>
          if c_int r_start \<and> c_int r_stop \<and> c_int c_start \<and> c_int c_stop
          then Inr ((min (max r_start 0) height, max 0 (min r_stop height)),
                    (min (max c_start 0) width, max 0 (min c_stop width)))
          else Inl OverflowError
      else Inl OverflowError)"

definition eval_window :: "window_arg \<Rightarrow> int \<Rightarrow> int \<Rightarrow> error + window" where
  "eval_window window height width =
     (if c_int height \<and> c_int width then
        case window of (r, c) \<Rightarrow>
          let r_start = py_or (fst r) 0 in
          if \<not> c_int r_start then Inl OverflowError else
          if r_start < 0 \<and> height < 0 then Inl (InvalidHeight height) else
          let r_start = (if r_start < 0 then r_start + height else r_start);
              r_stop = py_or (snd r) height in
          if \<not> c_int r_stop then Inl OverflowError else
          if r_stop < 0 \<and> height < 0 then Inl (InvalidHeight height) else
          let r_stop = (if r_stop < 0 then r_stop + height else r_stop) in
          if \<not> r_stop \<ge> r_start then Inl (InvalidRowRange r_start r_stop) else
          let c_start = py_or (fst c) 0 in
          if \<not> c_int c_start then Inl OverflowError else
          if c_start < 0 \<and> width < 0 then Inl (InvalidWidth width) else
          let c_start = (if c_start < 0 then c_start + width else c_start);
              c_stop = py_or (snd c) width in
          if \<not> c_int c_stop then Inl OverflowError else
          if c_stop < 0 \<and> width < 0 then Inl (InvalidWidth width) else
          let c_stop = (if c_stop < 0 then c_stop + width else c_stop) in
          if \<not> c_stop \<ge> c_start then Inl (InvalidColRange c_start c_stop) else
          Inr ((r_start, r_stop), (c_start, c_stop))
      else Inl OverflowError)"

text \<open>An evaluated window passed as an argument again: every bound is present.\<close>

definition as_arg :: "window \<Rightarrow> window_arg" where
  "as_arg w = (case w of ((a, b), (c, d)) \<Rightarrow> ((Some a, Some b), (Some c, Some d)))"

definition window_shape :: "window_arg \<Rightarrow> int \<Rightarrow> int \<Rightarrow> error + (int \<times> int)" where
  "window_shape window height width =
     (case eval_window window height width of
        Inl e \<Rightarrow> Inl e
      | Inr ((a, b), (c, d)) \<Rightarrow> Inr (b - a, d - c))"

section \<open>Block windows\<close>

text \<open>
  \<^verbatim>\<open>block_windows\<close> is a generator; the model returns the list of the pairs it
  yields, in the order it yields them. Its inputs are the values the method reads from
  the dataset: the tuple of block shapes \<^verbatim>\<open>(rows, columns)\<close> of the bands, the
  dataset's height and width, and the band index. These are Python integers.
\<close>

text \<open>\<^verbatim>\<open>xs[i]\<close> on a Python sequence: a negative index counts from the end.\<close>

definition py_index :: "'a list \<Rightarrow> int \<Rightarrow> error + 'a" where
  "py_index xs i =
     (if 0 \<le> i \<and> i < int (length xs) then Inr (xs ! nat i)
      else if i < 0 \<and> - int (length xs) \<le> i then Inr (xs ! nat (int (length xs) + i))
      else Inl IndexError)"

text \<open>\<^verbatim>\<open>d, m = divmod(n, k)\<close> followed by \<^verbatim>\<open>d + int(m > 0)\<close>, for \<open>k \<noteq> 0\<close>.\<close>

definition block_count :: "int \<Rightarrow> int \<Rightarrow> int" where
  "block_count n k = n div k + (if n mod k > 0 then 1 else 0)"

text \<open>\<^verbatim>\<open>range(n)\<close>.\<close>

definition range_upto :: "int \<Rightarrow> int list" where
  "range_upto n = [0..n - 1]"

definition block_windows ::
  "(int \<times> int) list \<Rightarrow> int \<Rightarrow> int \<Rightarrow> int \<Rightarrow> error + ((int \<times> int) \<times> window) list" where
  "block_windows block_shapes height width bidx =
     (if bidx < 1 \<and> length (remdups block_shapes) > 1 then Inl InhomogeneousBlockShapes else
      let bidx = (if bidx < 1 then 1 else bidx) in
      case py_index block_shapes (bidx - 1) of
        Inl e \<Rightarrow> Inl e
      | Inr (h, w) \<Rightarrow>
          if h = 0 then Inl ZeroDivisionError else
          let nrows = block_count height h in
          if w = 0 then Inl ZeroDivisionError else
          let ncols = block_count width w in
          Inr (concat (map (\<lambda>j.
                 let row = j * h; height' = min h (height - row) in
                 map (\<lambda>i.
                   let col = i * w; width' = min w (width - col) in
                   ((j, i), ((row, row + height'), (col, col + width'))))
                 (range_upto ncols))
               (range_upto nrows))))"

text \<open>The pixel \<open>(r, c)\<close> lies in a window (half-open on both axes).\<close>

definition inside :: "window \<Rightarrow> int \<Rightarrow> int \<Rightarrow> bool" where
  "inside win r c =
     (case win of ((r0, r1), (c0, c1)) \<Rightarrow> r0 \<le> r \<and> r < r1 \<and> c0 \<le> c \<and> c < c1)"

section \<open>Double-precision arithmetic\<close>

text \<open>
  Python floats are IEEE 754 binary64 numbers. A finite double is modelled by the real
  number it denotes, and an operation by the exact operation followed by rounding to
  the nearest double, ties to even. \<open>dbl_exp x\<close> is the binary exponent of \<open>x\<close>, not
  below \<open>-1022\<close> (the subnormal range) and found by counting up from there; \<open>fl x\<close> is
  the multiple of \<open>2 powi (dbl_exp x - 52)\<close> nearest to \<open>x\<close>. The sign of zero is not
  modelled.
\<close>

definition round_even :: "real \<Rightarrow> int" where
  "round_even y =
     (let n = \<lfloor>y\<rfloor>; r = y - of_int n
      in if r < 1 / 2 then n else if r > 1 / 2 then n + 1 else if even n then n else n + 1)"

primrec exp_search :: "nat \<Rightarrow> int \<Rightarrow> real \<Rightarrow> int" where
  "exp_search 0 e x = e"
| "exp_search (Suc k) e x = (if x < 2 powi (e + 1) then e else exp_search k (e + 1) x)"

definition dbl_exp :: "real \<Rightarrow> int" where
  "dbl_exp x = exp_search 2046 (- 1022) \<bar>x\<bar>"

definition fl :: "real \<Rightarrow> real" where
  "fl x = of_int (round_even (x / 2 powi (dbl_exp x - 52))) * 2 powi (dbl_exp x - 52)"

text \<open>
  A rounded result of magnitude \<open>2 ^ 1024\<close> or more is an infinity in the source.
  \<open>dbl\<close> is one operation of the coordinate functions below: an infinity there (or
  the not-a-number that follows from it) is never returned as an index, because
  \<^verbatim>\<open>math.floor\<close> and \<^verbatim>\<open>math.ceil\<close> raise on it, and the power
  \<^verbatim>\<open>10.0**-precision\<close> and the conversion of a Python integer to a float raise
  \<^verbatim>\<open>OverflowError\<close> themselves. The model ends the call with
  \<open>OverflowError\<close> at the operation that leaves the finite range.
\<close>

definition dbl :: "real \<Rightarrow> error + real" where
  "dbl x = (if \<bar>fl x\<bar> < 2 ^ 1024 then Inr (fl x) else Inl OverflowError)"

definition sum_bind :: "error + 'a \<Rightarrow> ('a \<Rightarrow> error + 'b) \<Rightarrow> error + 'b" where
  "sum_bind r f = (case r of Inl err \<Rightarrow> Inl err | Inr v \<Rightarrow> f v)"

section \<open>Affine transform and coordinate indexing\<close>

text \<open>
  The coordinates and the six coefficients are finite doubles, and every operation
  rounds as above.

  Modelled from the spec: the \<^verbatim>\<open>Affine\<close> value (imported from
  \<^verbatim>\<open>rasterio.transform\<close>, not among the sources) is six coefficients
  \<open>(a, b, c, d, e, f)\<close>, read by position as \<^verbatim>\<open>affine[0]\<close> to
  \<^verbatim>\<open>affine[5]\<close>, and \<^verbatim>\<open>affine * (col, row)\<close> is
  \<open>(a * col + b * row + c, d * col + e * row + f)\<close>, the integer indexes converted to
  doubles and the sums taken from left to right.
\<close>

type_synonym affine = "real \<times> real \<times> real \<times> real \<times> real \<times> real"

definition affine_apply :: "affine \<Rightarrow> int \<times> int \<Rightarrow> error + (real \<times> real)" where
  "affine_apply t p =
     (case t of (a, b, c, d, e, f) \<Rightarrow>
      case p of (col, row) \<Rightarrow>
        sum_bind (dbl (of_int col)) (\<lambda>vx.
        sum_bind (dbl (of_int row)) (\<lambda>vy.
        sum_bind (dbl (vx * a)) (\<lambda>xa.
        sum_bind (dbl (vy * b)) (\<lambda>yb.
        sum_bind (dbl (xa + yb)) (\<lambda>xs.
        sum_bind (dbl (xs + c)) (\<lambda>x.
        sum_bind (dbl (vx * d)) (\<lambda>xd.
        sum_bind (dbl (vy * e)) (\<lambda>ye.
        sum_bind (dbl (xd + ye)) (\<lambda>ys.
        sum_bind (dbl (ys + f)) (\<lambda>y. Inr (x, y))))))))))))"

text \<open>
  \<^verbatim>\<open>get_index\<close>: the rounding function \<^verbatim>\<open>op\<close> is a parameter
  (\<^verbatim>\<open>math.floor\<close> or \<^verbatim>\<open>math.ceil\<close> at the call sites), and a division
  by a zero coefficient raises. The constant \<^verbatim>\<open>0.1\<close> is the double nearest to
  one tenth, and the power is taken as correctly rounded.
\<close>

definition get_index ::
  "real \<Rightarrow> real \<Rightarrow> affine \<Rightarrow> (real \<Rightarrow> int) \<Rightarrow> int \<Rightarrow> error + (int \<times> int)" where
  "get_index x y affine op precision =
     (case affine of (a, b, c, d, e, f) \<Rightarrow>
        sum_bind (dbl (10 powi (- precision))) (\<lambda>pw.
        sum_bind (dbl (of_int (op (fl (1 / 10))))) (\<lambda>o1.
        sum_bind (dbl (2 * o1)) (\<lambda>o2.
        sum_bind (dbl (1 - o2)) (\<lambda>sg.
        sum_bind (dbl (pw * sg)) (\<lambda>eps.
        if e = 0 then Inl ZeroDivisionError else
        sum_bind (dbl (y - eps)) (\<lambda>y1.
        sum_bind (dbl (y1 - f)) (\<lambda>y2.
        sum_bind (dbl (y2 / e)) (\<lambda>yq.
        let row = op yq in
        if a = 0 then Inl ZeroDivisionError else
        sum_bind (dbl (x + eps)) (\<lambda>x1.
        sum_bind (dbl (x1 - c)) (\<lambda>x2.
        sum_bind (dbl (x2 / a)) (\<lambda>xq.
        let col = op xq in
        Inr (row, col)))))))))))))"

definition get_window ::
  "real \<Rightarrow> real \<Rightarrow> real \<Rightarrow> real \<Rightarrow> affine \<Rightarrow> int \<Rightarrow> error + window" where
  "get_window left bottom right top' affine precision =
     (case get_index left top' affine (floor :: real \<Rightarrow> int) precision of
        Inl err \<Rightarrow> Inl err
      | Inr window_start \<Rightarrow>
          (case get_index right bottom affine (ceiling :: real \<Rightarrow> int) precision of
             Inl err \<Rightarrow> Inl err
           | Inr window_stop \<Rightarrow>
               Inr ((fst window_start, fst window_stop), (snd window_start, snd window_stop))))"

definition window_bounds :: "window \<Rightarrow> affine \<Rightarrow> error + (real \<times> real \<times> real \<times> real)" where
  "window_bounds window affine =
     (case window of ((row_min, row_max), (col_min, col_max)) \<Rightarrow>
        sum_bind (affine_apply affine (col_min, row_max)) (\<lambda>lower.
        sum_bind (affine_apply affine (col_max, row_min)) (\<lambda>upper.
        Inr (fst lower, snd lower, fst upper, snd upper))))"

section \<open>Coordinate reference system parameters\<close>

subsection \<open>Python values and string operations\<close>

text \<open>
  A CRS is a Python dictionary from parameter names to strings, numbers and booleans.
  It is modelled as an association list in insertion order, which is the order
  \<^verbatim>\<open>crs.items()\<close> iterates in. Strings are ASCII.
\<close>

datatype py_float = Finite real | PosInf | NegInf | NaN

datatype pyval = PBool bool | PInt int | PFloat py_float | PStr string

type_synonym crs = "(string \<times> pyval) list"

text \<open>\<^verbatim>\<open>crs[k] = v\<close>: an existing key keeps its place and takes the new value.\<close>

fun dict_set :: "string \<Rightarrow> pyval \<Rightarrow> crs \<Rightarrow> crs" where
  "dict_set k v [] = [(k, v)]"
| "dict_set k v ((k', v') # rest) =
     (if k' = k then (k, v) # rest else (k', v') # dict_set k v rest)"

text \<open>Truthiness of a value, as \<^verbatim>\<open>and\<close> and \<^verbatim>\<open>if\<close> test it.\<close>

fun truthy :: "pyval \<Rightarrow> bool" where
  "truthy (PBool b) = b"
| "truthy (PInt i) = (i \<noteq> 0)"
| "truthy (PFloat (Finite r)) = (r \<noteq> 0)"
| "truthy (PFloat _) = True"
| "truthy (PStr s) = (s \<noteq> [])"

definition is_space :: "char \<Rightarrow> bool" where
  "is_space ch \<longleftrightarrow> ch \<in> set [CHR '' '', CHR 0x09, CHR 0x0A, CHR 0x0B, CHR 0x0C, CHR 0x0D,
                               CHR 0x1C, CHR 0x1D, CHR 0x1E, CHR 0x1F]"

text \<open>\<^verbatim>\<open>s.split()\<close>: the maximal runs of characters that are not white space.\<close>

fun split_ws :: "string \<Rightarrow> string \<Rightarrow> string list" where
  "split_ws cur [] = (if cur = [] then [] else [rev cur])"
| "split_ws cur (ch # cs) =
     (if is_space ch then (if cur = [] then split_ws [] cs else rev cur # split_ws [] cs)
      else split_ws (ch # cur) cs)"

text \<open>\<^verbatim>\<open>s.split(sep)\<close> for a separator of one character: every occurrence splits.\<close>

fun split_on :: "char \<Rightarrow> string \<Rightarrow> string \<Rightarrow> string list" where
  "split_on sep cur [] = [rev cur]"
| "split_on sep cur (ch # cs) =
     (if ch = sep then rev cur # split_on sep [] cs else split_on sep (ch # cur) cs)"

text \<open>\<^verbatim>\<open>sep.join(parts)\<close>.\<close>

fun py_join :: "string \<Rightarrow> string list \<Rightarrow> string" where
  "py_join sep [] = []"
| "py_join sep [x] = x"
| "py_join sep (x # y # rest) = x @ sep @ py_join sep (y # rest)"

subsection \<open>Reading a number\<close>

text \<open>
  \<^verbatim>\<open>float(v)\<close> on a string without white space: an optional sign, then
  \<^verbatim>\<open>inf\<close>, \<^verbatim>\<open>infinity\<close> or \<^verbatim>\<open>nan\<close> in any case, or a decimal
  literal with an optional fraction and an optional exponent. \<open>None\<close> stands for the
  \<^verbatim>\<open>ValueError\<close> that the source catches. Single underscores between two
  digits are skipped (Python 3.6 and later). The number a decimal literal denotes is
  rounded to the nearest double, and to an infinity when that leaves the finite range.
\<close>

definition is_digit :: "char \<Rightarrow> bool" where
  "is_digit ch \<longleftrightarrow> ch \<in> set ''0123456789''"

definition digit_val :: "char \<Rightarrow> nat" where
  "digit_val ch = of_char ch - 48"

definition digits_val :: "string \<Rightarrow> nat" where
  "digits_val ds = foldl (\<lambda>acc ch. 10 * acc + digit_val ch) 0 ds"

definition lower :: "char \<Rightarrow> char" where
  "lower ch =
     (if (65::nat) \<le> of_char ch \<and> of_char ch \<le> (90::nat) then char_of (of_char ch + (32::nat))
      else ch)"

text \<open>An optional sign in front: whether it is a minus, and the rest.\<close>

fun take_sign :: "string \<Rightarrow> bool \<times> string" where
  "take_sign [] = (False, [])"
| "take_sign (ch # cs) =
     (if ch = CHR ''-'' then (True, cs)
      else if ch = CHR ''+'' then (False, cs)
      else (False, ch # cs))"

text \<open>The exponent part: empty, or \<^verbatim>\<open>e\<close> or \<^verbatim>\<open>E\<close>, a sign, digits.\<close>

definition read_exponent :: "string \<Rightarrow> int option" where
  "read_exponent s =
     (case s of
        [] \<Rightarrow> Some 0
      | ch # cs \<Rightarrow>
          if ch = CHR ''e'' \<or> ch = CHR ''E'' then
            (case take_sign cs of (neg, ds) \<Rightarrow>
               if ds \<noteq> [] \<and> list_all is_digit ds
               then Some (if neg then - int (digits_val ds) else int (digits_val ds))
               else None)
          else None)"

definition read_decimal :: "string \<Rightarrow> real option" where
  "read_decimal s =
     (let ip = takeWhile is_digit s; r1 = dropWhile is_digit s;
          has_point = (r1 \<noteq> [] \<and> hd r1 = CHR ''.'');
          r2 = (if has_point then tl r1 else r1);
          fp = (if has_point then takeWhile is_digit r2 else []);
          r3 = (if has_point then dropWhile is_digit r2 else r2)
      in if ip = [] \<and> fp = [] then None
         else (case read_exponent r3 of
                 None \<Rightarrow> None
               | Some ex \<Rightarrow>
                   Some (real (digits_val (ip @ fp)) * 10 powi (ex - int (length fp)))))"

text \<open>
  The literal without its underscores; \<open>None\<close> when an underscore does not stand
  between two digits. The flag tells whether the character before was a digit.
\<close>

fun drop_underscores :: "bool \<Rightarrow> string \<Rightarrow> string option" where
  "drop_underscores after_digit [] = Some []"
| "drop_underscores after_digit (ch # cs) =
     (if ch = CHR ''_'' then
        (if after_digit \<and> cs \<noteq> [] \<and> is_digit (hd cs) then drop_underscores False cs else None)
      else map_option ((#) ch) (drop_underscores (is_digit ch) cs))"

definition py_float :: "string \<Rightarrow> py_float option" where
  "py_float s =
     (case take_sign s of (neg, body) \<Rightarrow>
        if map lower body = ''inf'' \<or> map lower body = ''infinity''
          then Some (if neg then NegInf else PosInf)
        else if map lower body = ''nan'' then Some NaN
        else (case drop_underscores False body of
                None \<Rightarrow> None
              | Some lit \<Rightarrow>
                  (case read_decimal lit of
                     None \<Rightarrow> None
                   | Some r \<Rightarrow>
                       if \<bar>fl r\<bar> < 2 ^ 1024 then Some (Finite (if neg then - fl r else fl r))
                       else Some (if neg then NegInf else PosInf))))"

subsection \<open>Parsing and writing PROJ parameters\<close>

text \<open>
  The value of one \<^verbatim>\<open>key=value\<close> token: \<^verbatim>\<open>float(v)\<close>, turned into an
  integer when \<^verbatim>\<open>v % 1 == 0\<close> (never so for an infinity or a NaN), and the string
  itself when \<^verbatim>\<open>float\<close> raises.
\<close>

definition coerce_value :: "string \<Rightarrow> pyval" where
  "coerce_value v =
     (case py_float v of
        None \<Rightarrow> PStr v
      | Some (Finite r) \<Rightarrow> if r = of_int \<lfloor>r\<rfloor> then PInt \<lfloor>r\<rfloor> else PFloat (Finite r)
      | Some x \<Rightarrow> PFloat x)"

text \<open>
  The loop of \<^verbatim>\<open>read_crs\<close> over the tokens of the PROJ string, the same in
  both versions of the method.
\<close>

fun read_crs_params :: "crs \<Rightarrow> string list \<Rightarrow> error + crs" where
  "read_crs_params crs [] = Inr crs"
| "read_crs_params crs (param # rest) =
     (case split_on CHR ''='' [] param of
        [k, v] \<Rightarrow> read_crs_params (dict_set (dropWhile (\<lambda>ch. ch = CHR ''+'') k) (coerce_value v) crs) rest
      | [k] \<Rightarrow> read_crs_params (dict_set (dropWhile (\<lambda>ch. ch = CHR ''+'') k) (PBool True) crs) rest
      | _ \<Rightarrow> Inl (UnexpectedProjParameter param))"

definition parse_proj :: "string \<Rightarrow> error + crs" where
  "parse_proj value = read_crs_params [] (split_ws [] value)"

text \<open>
  \<^verbatim>\<open>"%s" % v\<close>. How Python prints a float is not modelled: it is the parameter
  \<open>fmt\<close>.
\<close>

fun show_nat :: "nat \<Rightarrow> string" where
  "show_nat n = (if n < 10 then [char_of (48 + n)] else show_nat (n div 10) @ [char_of (48 + n mod 10)])"

definition py_str :: "(py_float \<Rightarrow> string) \<Rightarrow> pyval \<Rightarrow> string" where
  "py_str fmt v =
     (case v of
        PBool b \<Rightarrow> (if b then ''True'' else ''False'')
      | PInt i \<Rightarrow> (if i < 0 then CHR ''-'' # show_nat (nat (- i)) else show_nat (nat i))
      | PFloat x \<Rightarrow> fmt x
      | PStr s \<Rightarrow> s)"

text \<open>
  The string \<^verbatim>\<open>proj\<close> that \<^verbatim>\<open>write_crs\<close> builds from the mapping and
  hands to the spatial reference engine.
\<close>

definition write_crs_proj :: "(py_float \<Rightarrow> string) \<Rightarrow> crs \<Rightarrow> string" where
  "write_crs_proj fmt crs =
     py_join '' ''
       (map (\<lambda>(k, v).
               if v = PBool True \<or> (k = ''no_defs'' \<and> truthy v) then ''+'' @ k
               else ''+'' @ k @ ''='' @ py_str fmt v)
            crs)"

section \<open>The raster engine\<close>

text \<open>
  The native engine is outside the repository. What its calls answer for one open
  dataset is a value of \<open>native_ds\<close>; the handle \<^verbatim>\<open>_hds\<close> of a dataset object is
  that value, or \<open>None\<close> for \<^verbatim>\<open>NULL\<close>. Opening a path is the parameter
  \<open>gdal_open\<close> of the \<^verbatim>\<open>start\<close> methods, and the transfer call
  \<^verbatim>\<open>GDALRasterIO\<close> is the parameter \<open>rio\<close> of the band methods.
\<close>

record native_osr =
  osr_epsg :: "string option"    \<comment> \<open>the authority code, when \<^verbatim>\<open>OSRAutoIdentifyEPSG\<close> succeeds\<close>
  osr_proj4 :: "string option"   \<comment> \<open>\<^verbatim>\<open>OSRExportToProj4\<close>, \<open>None\<close> for \<^verbatim>\<open>NULL\<close>\<close>
  osr_wkt :: "string option"     \<comment> \<open>\<^verbatim>\<open>OSRExportToWkt\<close>, \<open>None\<close> for \<^verbatim>\<open>NULL\<close>\<close>

record native_band =
  band_type :: nat                  \<comment> \<open>\<^verbatim>\<open>GDALGetRasterDataType\<close>\<close>
  band_block :: "int \<times> int"         \<comment> \<open>\<^verbatim>\<open>GDALGetBlockSize\<close>: \<open>(xsize, ysize)\<close>\<close>
  band_nodata :: "real \<times> bool"       \<comment> \<open>\<^verbatim>\<open>GDALGetRasterNoDataValue\<close>: value and success flag\<close>
  band_pixels :: "real list list"   \<comment> \<open>the stored values, row by row\<close>

record native_ds =
  ds_driver :: string
  ds_xsize :: int
  ds_ysize :: int
  ds_bands :: "native_band list"
  ds_geotransform :: "real list"    \<comment> \<open>the six values \<^verbatim>\<open>GDALGetGeoTransform\<close> fills in\<close>
  ds_gt_failure :: bool             \<comment> \<open>whether it reports failure\<close>
  ds_projection :: "string option"  \<comment> \<open>\<^verbatim>\<open>GDALGetProjectionRef\<close>\<close>
  ds_osr :: "native_osr option"     \<comment> \<open>\<^verbatim>\<open>OSRNewSpatialReference\<close> of the projection\<close>

text \<open>
  \<^verbatim>\<open>GDALGetRasterBand(hds, bidx)\<close>: the band, or \<open>None\<close> for an index outside
  \<open>1 .. count\<close>.
\<close>

definition get_raster_band :: "native_ds \<Rightarrow> int \<Rightarrow> native_band option" where
  "get_raster_band ds bidx =
     (if 1 \<le> bidx \<and> bidx \<le> int (length (ds_bands ds)) then Some (ds_bands ds ! nat (bidx - 1))
      else None)"

text \<open>
  Queries on a band handle that may be \<^verbatim>\<open>NULL\<close>. The source does not test the
  handle before them; for \<^verbatim>\<open>NULL\<close> the model answers the unknown type 0, the
  block size \<open>(0, 0)\<close> and no nodata value.
\<close>

definition raster_data_type :: "native_band option \<Rightarrow> nat" where
  "raster_data_type hband = (case hband of None \<Rightarrow> 0 | Some b \<Rightarrow> band_type b)"

definition block_size :: "native_band option \<Rightarrow> int \<times> int" where
  "block_size hband = (case hband of None \<Rightarrow> (0, 0) | Some b \<Rightarrow> band_block b)"

definition raster_nodata_value :: "native_band option \<Rightarrow> real \<times> bool" where
  "raster_nodata_value hband = (case hband of None \<Rightarrow> (0, False) | Some b \<Rightarrow> band_nodata b)"

text \<open>
  \<^verbatim>\<open>GDALRasterIO(hband, mode, xoff, yoff, width, height, buffer, buffer columns,
  buffer rows, element type, 0, 0)\<close>: from the band's values and the buffer's, the
  values of both after the transfer.
\<close>

type_synonym raster_io =
  "real list list \<Rightarrow> nat \<Rightarrow> int \<Rightarrow> int \<Rightarrow> int \<Rightarrow> int \<Rightarrow> real list list \<Rightarrow> nat
     \<Rightarrow> real list list \<times> real list list"

section \<open>Element types\<close>

text \<open>
  Modelled from the spec: the tables of \<^verbatim>\<open>rasterio.dtypes\<close> are not among the
  sources. The element types are the seven of the dispatch chain of
  \<^verbatim>\<open>read_band\<close>, with the native codes 1 to 7 that the \<^verbatim>\<open>io_*\<close>
  functions pass to the engine; \<^verbatim>\<open>dtype_fwd\<close> has an entry for every native
  code, and a code outside 1 to 7 stands for an element type outside the seven.
  \<^verbatim>\<open>dtype_ranges\<close> gives the representable range of each of the seven.
\<close>

datatype dtype = Ubyte | UInt16 | Int16 | UInt32 | Int32 | Float32 | Float64 | OtherDtype nat

definition dtype_fwd :: "nat \<Rightarrow> dtype" where
  "dtype_fwd code =
     (if code = 1 then Ubyte else if code = 2 then UInt16 else if code = 3 then Int16
      else if code = 4 then UInt32 else if code = 5 then Int32 else if code = 6 then Float32
      else if code = 7 then Float64 else OtherDtype code)"

definition float32_max :: real where
  "float32_max = 2 ^ 128 - 2 ^ 104"

definition float64_max :: real where
  "float64_max = 2 ^ 1024 - 2 ^ 971"

definition dtype_ranges :: "dtype \<Rightarrow> error + (real \<times> real)" where
  "dtype_ranges dt =
     (case dt of
        Ubyte \<Rightarrow> Inr (0, 255)
      | UInt16 \<Rightarrow> Inr (0, 65535)
      | Int16 \<Rightarrow> Inr (- 32768, 32767)
      | UInt32 \<Rightarrow> Inr (0, 4294967295)
      | Int32 \<Rightarrow> Inr (- 2147483648, 2147483647)
      | Float32 \<Rightarrow> Inr (- float32_max, float32_max)
      | Float64 \<Rightarrow> Inr (- float64_max, float64_max)
      | OtherDtype code \<Rightarrow> Inl KeyError)"

text \<open>A numpy array of two dimensions: its element type and its rows.\<close>

record buffer =
  buf_dtype :: dtype
  buf_data :: "real list list"

text \<open>\<^verbatim>\<open>np.zeros(shape, dtype)\<close>; a negative dimension raises.\<close>

definition np_zeros :: "int \<times> int \<Rightarrow> dtype \<Rightarrow> error + buffer" where
  "np_zeros shp dt =
     (case shp of (rows, cols) \<Rightarrow>
        if rows < 0 \<or> cols < 0 then Inl NegativeDimensions
        else Inr \<lparr>buf_dtype = dt, buf_data = replicate (nat rows) (replicate (nat cols) 0)\<rparr>)"

text \<open>
  The typed transfer functions \<^verbatim>\<open>io_ubyte\<close> to \<^verbatim>\<open>io_float64\<close>: each
  passes its own element type code to the engine.
\<close>

definition io_ubyte :: "raster_io \<Rightarrow> real list list \<Rightarrow> nat \<Rightarrow> int \<Rightarrow> int \<Rightarrow> int \<Rightarrow> int
    \<Rightarrow> real list list \<Rightarrow> real list list \<times> real list list" where
  "io_ubyte rio hband mode xoff yoff width height buf = rio hband mode xoff yoff width height buf 1"

definition io_uint16 :: "raster_io \<Rightarrow> real list list \<Rightarrow> nat \<Rightarrow> int \<Rightarrow> int \<Rightarrow> int \<Rightarrow> int
    \<Rightarrow> real list list \<Rightarrow> real list list \<times> real list list" where
  "io_uint16 rio hband mode xoff yoff width height buf = rio hband mode xoff yoff width height buf 2"

definition io_int16 :: "raster_io \<Rightarrow> real list list \<Rightarrow> nat \<Rightarrow> int \<Rightarrow> int \<Rightarrow> int \<Rightarrow> int
    \<Rightarrow> real list list \<Rightarrow> real list list \<times> real list list" where
  "io_int16 rio hband mode xoff yoff width height buf = rio hband mode xoff yoff width height buf 3"

definition io_uint32 :: "raster_io \<Rightarrow> real list list \<Rightarrow> nat \<Rightarrow> int \<Rightarrow> int \<Rightarrow> int \<Rightarrow> int
    \<Rightarrow> real list list \<Rightarrow> real list list \<times> real list list" where
  "io_uint32 rio hband mode xoff yoff width height buf = rio hband mode xoff yoff width height buf 4"

definition io_int32 :: "raster_io \<Rightarrow> real list list \<Rightarrow> nat \<Rightarrow> int \<Rightarrow> int \<Rightarrow> int \<Rightarrow> int
    \<Rightarrow> real list list \<Rightarrow> real list list \<times> real list list" where
  "io_int32 rio hband mode xoff yoff width height buf = rio hband mode xoff yoff width height buf 5"

definition io_float32 :: "raster_io \<Rightarrow> real list list \<Rightarrow> nat \<Rightarrow> int \<Rightarrow> int \<Rightarrow> int \<Rightarrow> int
    \<Rightarrow> real list list \<Rightarrow> real list list \<times> real list list" where
  "io_float32 rio hband mode xoff yoff width height buf = rio hband mode xoff yoff width height buf 6"

definition io_float64 :: "raster_io \<Rightarrow> real list list \<Rightarrow> nat \<Rightarrow> int \<Rightarrow> int \<Rightarrow> int \<Rightarrow> int
    \<Rightarrow> real list list \<Rightarrow> real list list \<times> real list list" where
  "io_float64 rio hband mode xoff yoff width height buf = rio hband mode xoff yoff width height buf 7"

section \<open>Sequencing of calls that may raise\<close>

text \<open>
  A call that raises ends the method with the state it reached. \<open>st_bind\<close> sequences
  a call that also returns a state, \<open>err_bind\<close> one that returns its result only.
\<close>

definition st_bind ::
  "(error + 'a) \<times> 's \<Rightarrow> ('a \<Rightarrow> 's \<Rightarrow> (error + 'b) \<times> 's) \<Rightarrow> (error + 'b) \<times> 's" where
  "st_bind m f = (case fst m of Inl e \<Rightarrow> (Inl e, snd m) | Inr x \<Rightarrow> f x (snd m))"

definition err_bind ::
  "error + 'a \<Rightarrow> 's \<Rightarrow> ('a \<Rightarrow> (error + 'b) \<times> 's) \<Rightarrow> (error + 'b) \<times> 's" where
  "err_bind r self f = (case r of Inl e \<Rightarrow> (Inl e, self) | Inr x \<Rightarrow> f x)"

section \<open>RasterReader and RasterUpdater\<close>

text \<open>
  The attributes of a \<^verbatim>\<open>RasterReader\<close>. An attribute that holds an object is
  \<open>None\<close> until it is assigned. A method is a function from the object's state to
  its result, an error or a value, and the state after the call; a method that assigns
  nothing returns its result only.
\<close>

record reader =
  r_name :: string
  r_mode :: string
  r_hds :: "native_ds option"
  r_count :: int
  r_width :: "int option"
  r_height :: "int option"
  r_shape :: "(int \<times> int) option"
  r_driver :: "string option"
  r_dtypes :: "dtype list"
  r_closed :: bool
  r_crs :: "crs option"
  r_crs_wkt :: "string option"
  r_transform :: "real list option"
  r_block_shapes :: "(int \<times> int) list"
  r_nodatavals :: "real option list"

definition RasterReader_init :: "string \<Rightarrow> reader" where
  "RasterReader_init path =
     \<lparr>r_name = path, r_mode = ''r'', r_hds = None, r_count = 0, r_width = None,
      r_height = None, r_shape = None, r_driver = None, r_dtypes = [], r_closed = True,
      r_crs = None, r_crs_wkt = None, r_transform = None, r_block_shapes = [],
      r_nodatavals = []\<rparr>"

definition RasterReader_read_crs :: "reader \<Rightarrow> error + crs" where
  "RasterReader_read_crs self =
     (case r_hds self of
        None \<Rightarrow> Inl NullDataset
      | Some ds \<Rightarrow>
          (case ds_osr ds of
             None \<Rightarrow> Inr []
           | Some osr \<Rightarrow>
               (case osr_proj4 osr of
                  None \<Rightarrow> Inl NullProjection
                | Some proj \<Rightarrow> parse_proj proj)))"

definition RasterReader_read_crs_wkt :: "reader \<Rightarrow> error + string" where
  "RasterReader_read_crs_wkt self =
     (case r_hds self of
        None \<Rightarrow> Inl NullDataset
      | Some ds \<Rightarrow>
          (case ds_osr ds of
             None \<Rightarrow> Inl UnboundLocalError
           | Some osr \<Rightarrow>
               (case osr_wkt osr of
                  None \<Rightarrow> Inl NullProjection
                | Some crs_wkt \<Rightarrow> Inr crs_wkt)))"

definition RasterReader_read_transform :: "reader \<Rightarrow> error + real list" where
  "RasterReader_read_transform self =
     (case r_hds self of
        None \<Rightarrow> Inl NullDataset
      | Some ds \<Rightarrow> Inr (ds_geotransform ds))"

definition RasterReader_start ::
  "(string \<Rightarrow> native_ds option) \<Rightarrow> reader \<Rightarrow> (error + unit) \<times> reader" where
  "RasterReader_start gdal_open self =
     (let self = self\<lparr>r_hds := gdal_open (r_name self)\<rparr> in
      case r_hds self of
        None \<Rightarrow> (Inl NullDataset, self)
      | Some ds \<Rightarrow>
          let self = self\<lparr>r_driver := Some (ds_driver ds),
                          r_count := int (length (ds_bands ds)),
                          r_width := Some (ds_xsize ds),
                          r_height := Some (ds_ysize ds),
                          r_shape := Some (ds_ysize ds, ds_xsize ds)\<rparr> in
          err_bind (RasterReader_read_transform self) self (\<lambda>t.
          let self = self\<lparr>r_transform := Some t\<rparr> in
          err_bind (RasterReader_read_crs self) self (\<lambda>c.
          let self = self\<lparr>r_crs := Some c\<rparr> in
          err_bind (RasterReader_read_crs_wkt self) self (\<lambda>w.
          (Inr (), self\<lparr>r_crs_wkt := Some w, r_closed := False\<rparr>)))))"

definition RasterReader_stop :: "reader \<Rightarrow> reader" where
  "RasterReader_stop self = self\<lparr>r_hds := None\<rparr>"

definition RasterReader_close :: "reader \<Rightarrow> reader" where
  "RasterReader_close self = (RasterReader_stop self)\<lparr>r_closed := True\<rparr>"

definition RasterReader_count :: "reader \<Rightarrow> (error + int) \<times> reader" where
  "RasterReader_count self =
     (if r_count self = 0 then
        (case r_hds self of
           None \<Rightarrow> (Inl ClosedDataset, self)
         | Some ds \<Rightarrow>
             let self = self\<lparr>r_count := int (length (ds_bands ds))\<rparr> in (Inr (r_count self), self))
      else (Inr (r_count self), self))"

definition RasterReader_indexes :: "reader \<Rightarrow> (error + int list) \<times> reader" where
  "RasterReader_indexes self = st_bind (RasterReader_count self) (\<lambda>n self. (Inr [1..n], self))"

definition RasterReader_dtypes :: "reader \<Rightarrow> (error + dtype list) \<times> reader" where
  "RasterReader_dtypes self =
     (if r_dtypes self = [] then
        (case r_hds self of
           None \<Rightarrow> (Inl ClosedDataset, self)
         | Some ds \<Rightarrow>
             let self = self\<lparr>r_dtypes :=
                   map (\<lambda>i. dtype_fwd (raster_data_type (get_raster_band ds (i + 1))))
                       (range_upto (r_count self))\<rparr>
             in (Inr (r_dtypes self), self))
      else (Inr (r_dtypes self), self))"

definition RasterReader_block_shapes :: "reader \<Rightarrow> (error + (int \<times> int) list) \<times> reader" where
  "RasterReader_block_shapes self =
     (if r_block_shapes self = [] then
        (case r_hds self of
           None \<Rightarrow> (Inl ClosedDataset, self)
         | Some ds \<Rightarrow>
             let self = self\<lparr>r_block_shapes :=
                   map (\<lambda>i. case block_size (get_raster_band ds (i + 1)) of
                                (xsize, ysize) \<Rightarrow> (ysize, xsize))
                       (range_upto (r_count self))\<rparr>
             in (Inr (r_block_shapes self), self))
      else (Inr (r_block_shapes self), self))"

definition RasterReader_nodatavals :: "reader \<Rightarrow> (error + real option list) \<times> reader" where
  "RasterReader_nodatavals self =
     (if r_nodatavals self = [] then
        (case r_hds self of
           None \<Rightarrow> (Inl ClosedDataset, self)
         | Some ds \<Rightarrow>
             let self = self\<lparr>r_nodatavals :=
                   map (\<lambda>i. case raster_nodata_value (get_raster_band ds (i + 1)) of
                                (val, success) \<Rightarrow> if \<not> success then None else Some val)
                       (range_upto (r_count self))\<rparr>
             in (Inr (r_nodatavals self), self))
      else (Inr (r_nodatavals self), self))"

text \<open>\<^verbatim>\<open>not self._crs\<close> holds for \<^verbatim>\<open>None\<close> and for the empty mapping.\<close>

definition RasterReader_get_crs :: "reader \<Rightarrow> (error + crs) \<times> reader" where
  "RasterReader_get_crs self =
     (if r_crs self = None \<or> r_crs self = Some [] then
        err_bind (RasterReader_read_crs self) self (\<lambda>c. (Inr c, self\<lparr>r_crs := Some c\<rparr>))
      else (Inr (the (r_crs self)), self))"

definition RasterReader_get_transform :: "reader \<Rightarrow> (error + real list) \<times> reader" where
  "RasterReader_get_transform self =
     (if r_transform self = None \<or> r_transform self = Some [] then
        err_bind (RasterReader_read_transform self) self
          (\<lambda>t. (Inr t, self\<lparr>r_transform := Some t\<rparr>))
      else (Inr (the (r_transform self)), self))"

text \<open>\<^verbatim>\<open>xs.index(x)\<close> for an \<open>x\<close> that occurs in \<open>xs\<close>.\<close>

definition list_index :: "int list \<Rightarrow> int \<Rightarrow> int" where
  "list_index xs x = int (length (takeWhile (\<lambda>y. y \<noteq> x) xs))"

text \<open>
  The offsets and sizes of a transfer, \<open>(xoff, yoff, width, height)\<close>: those of the
  evaluated window, or of the full extent when no window is given. A height or width
  that is still \<^verbatim>\<open>None\<close> cannot be passed on as an integer.
\<close>

definition transfer_extent ::
  "reader \<Rightarrow> window_arg option \<Rightarrow> error + (int \<times> int \<times> int \<times> int)" where
  "transfer_extent self window =
     (case r_height self of
        None \<Rightarrow> Inl TypeError
      | Some h \<Rightarrow>
          (case r_width self of
             None \<Rightarrow> Inl TypeError
           | Some w \<Rightarrow>
               (case window of
                  Some win \<Rightarrow>
                    (case eval_window win h w of
                       Inl e \<Rightarrow> Inl e
                     | Inr window \<Rightarrow>
                         let yoff = fst (fst window); xoff = fst (snd window);
                             height = snd (fst window) - yoff; width = snd (snd window) - xoff
                         in Inr (xoff, yoff, width, height))
                | None \<Rightarrow> Inr (0, 0, w, h))))"

text \<open>The chain that picks the transfer function by the band's element type.\<close>

definition io_dispatch ::
  "raster_io \<Rightarrow> dtype \<Rightarrow> real list list \<Rightarrow> nat \<Rightarrow> int \<Rightarrow> int \<Rightarrow> int \<Rightarrow> int \<Rightarrow> real list list
     \<Rightarrow> error + (real list list \<times> real list list)" where
  "io_dispatch rio dt hband mode xoff yoff width height buf =
     (if dt = Ubyte then Inr (io_ubyte rio hband mode xoff yoff width height buf)
      else if dt = UInt16 then Inr (io_uint16 rio hband mode xoff yoff width height buf)
      else if dt = Int16 then Inr (io_int16 rio hband mode xoff yoff width height buf)
      else if dt = UInt32 then Inr (io_uint32 rio hband mode xoff yoff width height buf)
      else if dt = Int32 then Inr (io_int32 rio hband mode xoff yoff width height buf)
      else if dt = Float32 then Inr (io_float32 rio hband mode xoff yoff width height buf)
      else if dt = Float64 then Inr (io_float64 rio hband mode xoff yoff width height buf)
      else Inl InvalidDtype)"

text \<open>The dataset with the values of band \<open>bidx\<close> replaced.\<close>

definition set_band_pixels :: "native_ds \<Rightarrow> int \<Rightarrow> real list list \<Rightarrow> native_ds" where
  "set_band_pixels ds bidx px =
     ds\<lparr>ds_bands := (ds_bands ds)[nat (bidx - 1) :=
           (ds_bands ds ! nat (bidx - 1))\<lparr>band_pixels := px\<rparr>]\<rparr>"

text \<open>
  \<^verbatim>\<open>read_band(bidx, out=None, window=None)\<close>. The result is the array returned;
  the state after the call holds the dataset as the transfer left it.
\<close>

definition RasterReader_read_band ::
  "raster_io \<Rightarrow> reader \<Rightarrow> int \<Rightarrow> buffer option \<Rightarrow> window_arg option
     \<Rightarrow> (error + buffer) \<times> reader" where
  "RasterReader_read_band rio self bidx out window =
     st_bind (RasterReader_indexes self) (\<lambda>indexes self.
     if bidx \<notin> set indexes then (Inl BandIndexError, self) else
     st_bind (RasterReader_indexes self) (\<lambda>indexes self.
     let i = list_index indexes bidx in
     case r_hds self of
       None \<Rightarrow> (Inl ClosedDataset, self)
     | Some ds \<Rightarrow>
     st_bind (case out of
                None \<Rightarrow> (Inr False, self)
              | Some buf \<Rightarrow>
                  st_bind (RasterReader_dtypes self) (\<lambda>dts self.
                  err_bind (py_index dts i) self (\<lambda>dt.
                  (Inr (buf_dtype buf \<noteq> dt), self)))) (\<lambda>mismatch self.
     if mismatch then (Inl DtypeMismatch, self) else
     case get_raster_band ds bidx of
       None \<Rightarrow> (Inl NullBand, self)
     | Some hband \<Rightarrow>
     st_bind (RasterReader_dtypes self) (\<lambda>dts self.
     err_bind (py_index dts i) self (\<lambda>dtype.
     err_bind (case out of
                 Some buf \<Rightarrow> Inr buf
               | None \<Rightarrow>
                   (case window of
                      Some win \<Rightarrow>
                        (case r_height self of
                           None \<Rightarrow> Inl TypeError
                         | Some h \<Rightarrow>
                             (case r_width self of
                                None \<Rightarrow> Inl TypeError
                              | Some w \<Rightarrow>
                                  (case window_shape win h w of
                                     Inl e \<Rightarrow> Inl e
                                   | Inr out_shape \<Rightarrow> np_zeros out_shape dtype)))
                    | None \<Rightarrow>
                        (case r_shape self of
                           None \<Rightarrow> Inl TypeError
                         | Some out_shape \<Rightarrow> np_zeros out_shape dtype))) self (\<lambda>out.
     err_bind (transfer_extent self window) self (\<lambda>ext.
     err_bind (io_dispatch rio dtype (band_pixels hband) 0 (fst ext) (fst (snd ext))
                 (fst (snd (snd ext))) (snd (snd (snd ext))) (buf_data out)) self (\<lambda>res.
     (Inr (out\<lparr>buf_data := snd res\<rparr>),
      self\<lparr>r_hds := Some (set_band_pixels ds bidx (fst res))\<rparr>)))))))))"

text \<open>
  \<^verbatim>\<open>RasterUpdater.write_band(bidx, src, window=None)\<close>. The updater inherits the
  reader's attributes, and \<^verbatim>\<open>write_band\<close> reads none of its own. The source
  array is always an array here, so \<^verbatim>\<open>src is not None\<close> holds. The result is
  the source array as the transfer left it.
\<close>

definition RasterUpdater_write_band ::
  "raster_io \<Rightarrow> reader \<Rightarrow> int \<Rightarrow> buffer \<Rightarrow> window_arg option \<Rightarrow> (error + buffer) \<times> reader" where
  "RasterUpdater_write_band rio self bidx src window =
     st_bind (RasterReader_indexes self) (\<lambda>indexes self.
     if bidx \<notin> set indexes then (Inl BandIndexError, self) else
     st_bind (RasterReader_indexes self) (\<lambda>indexes self.
     let i = list_index indexes bidx in
     case r_hds self of
       None \<Rightarrow> (Inl ClosedDataset, self)
     | Some ds \<Rightarrow>
     st_bind (RasterReader_dtypes self) (\<lambda>dts self.
     err_bind (py_index dts i) self (\<lambda>dt.
     if buf_dtype src \<noteq> dt then (Inl DtypeMismatch, self) else
     case get_raster_band ds bidx of
       None \<Rightarrow> (Inl NullBand, self)
     | Some hband \<Rightarrow>
     err_bind (transfer_extent self window) self (\<lambda>ext.
     st_bind (RasterReader_dtypes self) (\<lambda>dts self.
     err_bind (py_index dts i) self (\<lambda>dtype.
     err_bind (io_dispatch rio dtype (band_pixels hband) 1 (fst ext) (fst (snd ext))
                 (fst (snd (snd ext))) (snd (snd (snd ext))) (buf_data src)) self (\<lambda>res.
     (Inr (src\<lparr>buf_data := snd res\<rparr>),
      self\<lparr>r_hds := Some (set_band_pixels ds bidx (fst res))\<rparr>)))))))))"

section \<open>DatasetBase\<close>

text \<open>
  The attributes of a \<^verbatim>\<open>DatasetBase\<close>. \<^verbatim>\<open>__init__\<close> assigns some of them;
  the others (\<^verbatim>\<open>_transform\<close>, \<^verbatim>\<open>driver\<close>, \<^verbatim>\<open>width\<close>,
  \<^verbatim>\<open>height\<close>, \<^verbatim>\<open>shape\<close>) are \<^verbatim>\<open>None\<close> until \<^verbatim>\<open>start\<close>
  assigns them.
\<close>

record dataset =
  d_name :: string
  d_mode :: string
  d_options :: "(string \<times> string) list"
  d_hds :: "native_ds option"
  d_count :: int
  d_closed :: bool
  d_dtypes :: "dtype list"
  d_block_shapes :: "(int \<times> int) list option"
  d_nodatavals :: "real option list"
  d_crs :: "crs option"
  d_read :: bool
  d_transform :: "real list option"
  d_driver :: "string option"
  d_width :: "int option"
  d_height :: "int option"
  d_shape :: "(int \<times> int) option"

definition DatasetBase_init :: "string \<Rightarrow> (string \<times> string) list option \<Rightarrow> dataset" where
  "DatasetBase_init path options =
     \<lparr>d_name = path, d_mode = ''r'',
      d_options = (case options of None \<Rightarrow> [] | Some opts \<Rightarrow> opts),
      d_hds = None, d_count = 0, d_closed = True, d_dtypes = [], d_block_shapes = None,
      d_nodatavals = [], d_crs = None, d_read = False, d_transform = None, d_driver = None,
      d_width = None, d_height = None, d_shape = None\<rparr>"

text \<open>
  \<^verbatim>\<open>band(bidx)\<close>: the engine's illegal-argument error for an index outside the
  bands becomes \<^verbatim>\<open>IndexError\<close>. On a \<^verbatim>\<open>NULL\<close> dataset handle the engine
  returns no band, and the method raises.
\<close>

definition DatasetBase_band :: "dataset \<Rightarrow> int \<Rightarrow> error + native_band" where
  "DatasetBase_band self bidx =
     (case d_hds self of
        None \<Rightarrow> Inl NullBand
      | Some ds \<Rightarrow>
          (case get_raster_band ds bidx of
             None \<Rightarrow> Inl BandIndexError
           | Some band \<Rightarrow> Inr band))"

definition DatasetBase_read_crs :: "dataset \<Rightarrow> error + crs" where
  "DatasetBase_read_crs self =
     (case d_hds self of
        None \<Rightarrow> Inl NullDataset
      | Some ds \<Rightarrow>
          (case ds_projection ds of
             None \<Rightarrow> Inl NullSpatialReference
           | Some wkt \<Rightarrow>
               if length wkt > 0 then
                 (case ds_osr ds of
                    None \<Rightarrow> Inl NullSpatialReference
                  | Some osr \<Rightarrow>
                      (case osr_epsg osr of
                         Some val \<Rightarrow> Inr (dict_set ''init'' (PStr (''epsg:'' @ val)) [])
                       | None \<Rightarrow>
                           (case osr_proj4 osr of
                              None \<Rightarrow> Inl NullSpatialReference
                            | Some proj \<Rightarrow> parse_proj proj)))
               else Inr []))"

definition DatasetBase_read_transform :: "dataset \<Rightarrow> error + real list" where
  "DatasetBase_read_transform self =
     (case d_hds self of
        None \<Rightarrow> Inl NullDataset
      | Some ds \<Rightarrow> Inr (ds_geotransform ds))"

definition DatasetBase_stop :: "dataset \<Rightarrow> dataset" where
  "DatasetBase_stop self = self\<lparr>d_hds := None\<rparr>"

definition DatasetBase_close :: "dataset \<Rightarrow> dataset" where
  "DatasetBase_close self = (DatasetBase_stop self)\<lparr>d_closed := True\<rparr>"

definition DatasetBase_count :: "dataset \<Rightarrow> (error + int) \<times> dataset" where
  "DatasetBase_count self =
     (if d_count self = 0 then
        (case d_hds self of
           None \<Rightarrow> (Inl ClosedDataset, self)
         | Some ds \<Rightarrow>
             let self = self\<lparr>d_count := int (length (ds_bands ds))\<rparr> in (Inr (d_count self), self))
      else (Inr (d_count self), self))"

text \<open>
  The loops of the three band properties. Each turn appends to the cached list, so a
  turn that raises leaves the entries of the turns before it.
\<close>

fun dtypes_loop :: "dataset \<Rightarrow> int list \<Rightarrow> (error + unit) \<times> dataset" where
  "dtypes_loop self [] = (Inr (), self)"
| "dtypes_loop self (i # rest) =
     err_bind (DatasetBase_band self (i + 1)) self (\<lambda>band.
     dtypes_loop (self\<lparr>d_dtypes := d_dtypes self @ [dtype_fwd (band_type band)]\<rparr>) rest)"

definition DatasetBase_dtypes :: "dataset \<Rightarrow> (error + dtype list) \<times> dataset" where
  "DatasetBase_dtypes self =
     (if d_dtypes self = [] then
        st_bind (dtypes_loop self (range_upto (d_count self))) (\<lambda>_ self.
        (Inr (d_dtypes self), self))
      else (Inr (d_dtypes self), self))"

fun block_shapes_loop :: "dataset \<Rightarrow> int list \<Rightarrow> (error + unit) \<times> dataset" where
  "block_shapes_loop self [] = (Inr (), self)"
| "block_shapes_loop self (i # rest) =
     err_bind (DatasetBase_band self (i + 1)) self (\<lambda>band.
     block_shapes_loop
       (self\<lparr>d_block_shapes :=
           Some (the (d_block_shapes self) @ [(snd (band_block band), fst (band_block band))])\<rparr>)
       rest)"

definition DatasetBase_block_shapes :: "dataset \<Rightarrow> (error + (int \<times> int) list) \<times> dataset" where
  "DatasetBase_block_shapes self =
     (case d_block_shapes self of
        None \<Rightarrow>
          st_bind (block_shapes_loop (self\<lparr>d_block_shapes := Some []\<rparr>) (range_upto (d_count self)))
            (\<lambda>_ self. (Inr (the (d_block_shapes self)), self))
      | Some shapes \<Rightarrow> (Inr shapes, self))"

text \<open>
  The nodata value of one band: absent when the engine's flag is 0 or the value lies
  outside the range of the band's element type. The range is looked up only when the
  flag is not 0.
\<close>

definition nodata_of_band :: "native_band \<Rightarrow> error + real option" where
  "nodata_of_band band =
     (let dtype = dtype_fwd (band_type band);
          val = fst (band_nodata band); success = snd (band_nodata band)
      in if \<not> success then Inr None
         else (case dtype_ranges dtype of
                 Inl e \<Rightarrow> Inl e
               | Inr rng \<Rightarrow> if val < fst rng \<or> val > snd rng then Inr None else Inr (Some val)))"

fun nodatavals_loop :: "dataset \<Rightarrow> int list \<Rightarrow> (error + unit) \<times> dataset" where
  "nodatavals_loop self [] = (Inr (), self)"
| "nodatavals_loop self (i # rest) =
     err_bind (DatasetBase_band self (i + 1)) self (\<lambda>band.
     err_bind (nodata_of_band band) self (\<lambda>val.
     nodatavals_loop (self\<lparr>d_nodatavals := d_nodatavals self @ [val]\<rparr>) rest))"

definition DatasetBase_get_nodatavals :: "dataset \<Rightarrow> (error + real option list) \<times> dataset" where
  "DatasetBase_get_nodatavals self =
     (if d_nodatavals self = [] then
        st_bind (nodatavals_loop self (range_upto (d_count self))) (\<lambda>_ self.
        (Inr (d_nodatavals self), self))
      else (Inr (d_nodatavals self), self))"

definition DatasetBase_nodata :: "dataset \<Rightarrow> (error + real option) \<times> dataset" where
  "DatasetBase_nodata self =
     st_bind (DatasetBase_count self) (\<lambda>n self.
     if n = 0 then (Inr None, self)
     else st_bind (DatasetBase_get_nodatavals self) (\<lambda>vals self.
          err_bind (py_index vals 0) self (\<lambda>val. (Inr val, self))))"

definition DatasetBase_get_crs :: "dataset \<Rightarrow> (error + crs option) \<times> dataset" where
  "DatasetBase_get_crs self =
     (if \<not> d_read self \<and> d_crs self = None then
        err_bind (DatasetBase_read_crs self) self (\<lambda>c. (Inr (Some c), self\<lparr>d_crs := Some c\<rparr>))
      else (Inr (d_crs self), self))"

definition DatasetBase_get_transform :: "dataset \<Rightarrow> (error + real list option) \<times> dataset" where
  "DatasetBase_get_transform self =
     (if \<not> d_read self \<and> d_transform self = None then
        err_bind (DatasetBase_read_transform self) self
          (\<lambda>t. (Inr (Some t), self\<lparr>d_transform := Some t\<rparr>))
      else (Inr (d_transform self), self))"

text \<open>
  \<^verbatim>\<open>Affine.from_gdal(c, a, b, f, d, e)\<close> and \<^verbatim>\<open>to_gdal()\<close> of the
  \<^verbatim>\<open>affine\<close> package; anything but six coefficients is a \<^verbatim>\<open>TypeError\<close>.
\<close>

definition from_gdal :: "real list option \<Rightarrow> error + affine" where
  "from_gdal gt =
     (case gt of
        Some [c, a, b, f, d, e] \<Rightarrow> Inr (a, b, c, d, e, f)
      | _ \<Rightarrow> Inl TypeError)"

definition to_gdal :: "affine \<Rightarrow> real list" where
  "to_gdal t = (case t of (a, b, c, d, e, f) \<Rightarrow> [c, a, b, f, d, e])"

definition DatasetBase_affine :: "dataset \<Rightarrow> (error + affine) \<times> dataset" where
  "DatasetBase_affine self =
     st_bind (DatasetBase_get_transform self) (\<lambda>gt self.
     err_bind (from_gdal gt) self (\<lambda>t. (Inr t, self)))"

text \<open>
  The dictionary that \<^verbatim>\<open>meta\<close> returns; its entries are computed in the order
  of the fields. The element type is the string \<^verbatim>\<open>'float_'\<close> for a dataset
  without bands.
\<close>

record meta =
  m_driver :: "string option"
  m_dtype :: "string + dtype"
  m_nodata :: "real option"
  m_width :: "int option"
  m_height :: "int option"
  m_count :: int
  m_crs :: "crs option"
  m_transform :: "real list"
  m_affine :: affine

definition DatasetBase_meta :: "dataset \<Rightarrow> (error + meta) \<times> dataset" where
  "DatasetBase_meta self =
     st_bind (DatasetBase_count self) (\<lambda>n self.
     st_bind (if n = 0 then (Inr (Inl ''float_''), self)
              else st_bind (DatasetBase_dtypes self) (\<lambda>dts self.
                   err_bind (py_index dts 0) self (\<lambda>dt. (Inr (Inr dt), self)))) (\<lambda>dtype self.
     st_bind (DatasetBase_nodata self) (\<lambda>nodata self.
     st_bind (DatasetBase_count self) (\<lambda>cnt self.
     st_bind (DatasetBase_get_crs self) (\<lambda>crs self.
     st_bind (DatasetBase_affine self) (\<lambda>t1 self.
     st_bind (DatasetBase_affine self) (\<lambda>t2 self.
     (Inr \<lparr>m_driver = d_driver self, m_dtype = dtype, m_nodata = nodata,
           m_width = d_width self, m_height = d_height self, m_count = cnt, m_crs = crs,
           m_transform = to_gdal t1, m_affine = t2\<rparr>,
      self\<lparr>d_read := True\<rparr>))))))))"

definition DatasetBase_start ::
  "(string \<Rightarrow> native_ds option) \<Rightarrow> dataset \<Rightarrow> (error + unit) \<times> dataset" where
  "DatasetBase_start gdal_open self =
     (let self = self\<lparr>d_hds := gdal_open (d_name self)\<rparr> in
      case d_hds self of
        None \<Rightarrow> (Inl RasterioIOError, self)
      | Some ds \<Rightarrow>
          let self = self\<lparr>d_driver := Some (ds_driver ds),
                          d_count := int (length (ds_bands ds)),
                          d_width := Some (ds_xsize ds),
                          d_height := Some (ds_ysize ds),
                          d_shape := Some (ds_ysize ds, ds_xsize ds)\<rparr> in
          err_bind (DatasetBase_read_transform self) self (\<lambda>t.
          let self = self\<lparr>d_transform := Some t\<rparr> in
          err_bind (DatasetBase_read_crs self) self (\<lambda>c.
          let self = self\<lparr>d_crs := Some c\<rparr> in
          st_bind (DatasetBase_meta self) (\<lambda>_ self.
          (Inr (), self\<lparr>d_closed := False\<rparr>)))))"

text \<open>
  The method \<^verbatim>\<open>block_windows\<close>: the generator above on the dataset's own values.
  The block shape is looked up before \<^verbatim>\<open>self.height\<close> and
  \<^verbatim>\<open>self.width\<close> are used, and \<^verbatim>\<open>divmod\<close> on a height or width that
  is still \<^verbatim>\<open>None\<close> raises \<^verbatim>\<open>TypeError\<close>.
\<close>

definition DatasetBase_block_windows ::
  "dataset \<Rightarrow> int \<Rightarrow> (error + ((int \<times> int) \<times> window) list) \<times> dataset" where
  "DatasetBase_block_windows self bidx =
     st_bind (DatasetBase_block_shapes self) (\<lambda>block_shapes self.
     if bidx < 1 \<and> length (remdups block_shapes) > 1
     then (Inl InhomogeneousBlockShapes, self) else
     err_bind (py_index block_shapes ((if bidx < 1 then 1 else bidx) - 1)) self (\<lambda>hw.
     case d_height self of
       None \<Rightarrow> (Inl TypeError, self)
     | Some height \<Rightarrow>
         if fst hw = 0 then (Inl ZeroDivisionError, self) else
         (case d_width self of
            None \<Rightarrow> (Inl TypeError, self)
          | Some width \<Rightarrow> (block_windows block_shapes height width bidx, self))))"

section \<open>A dataset for the examples\<close>

text \<open>A georeferenced raster of two rows and two columns with one band of bytes.\<close>

definition example_ds :: native_ds where
  "example_ds =
     \<lparr>ds_driver = ''GTiff'', ds_xsize = 2, ds_ysize = 2,
      ds_bands = [\<lparr>band_type = 1, band_block = (2, 1), band_nodata = (0, False),
                   band_pixels = [[1, 2], [3, 4]]\<rparr>],
      ds_geotransform = [0, 1, 0, 2, 0, - 1], ds_gt_failure = False,
      ds_projection = Some ''GEOGCS[WGS 84]'',
      ds_osr = Some \<lparr>osr_epsg = None,
                     osr_proj4 = Some ''+proj=longlat +datum=WGS84 +no_defs'',
                     osr_wkt = Some ''GEOGCS[WGS 84]''\<rparr>\<rparr>"

text \<open>The two kinds of dataset object as \<^verbatim>\<open>start\<close> leaves them on that raster.\<close>

definition example_reader :: reader where
  "example_reader =
     \<lparr>r_name = ''example.tif'', r_mode = ''r'', r_hds = Some example_ds, r_count = 1,
      r_width = Some 2, r_height = Some 2, r_shape = Some (2, 2), r_driver = Some ''GTiff'',
      r_dtypes = [], r_closed = False,
      r_crs = Some [(''proj'', PStr ''longlat''), (''datum'', PStr ''WGS84''),
                    (''no_defs'', PBool True)],
      r_crs_wkt = Some ''GEOGCS[WGS 84]'',
      r_transform = Some [0, 1, 0, 2, 0, - 1], r_block_shapes = [], r_nodatavals = []\<rparr>"

definition example_dataset :: dataset where
  "example_dataset =
     \<lparr>d_name = ''example.tif'', d_mode = ''r'', d_options = [], d_hds = Some example_ds,
      d_count = 1, d_closed = False, d_dtypes = [Ubyte], d_block_shapes = None,
      d_nodatavals = [None],
      d_crs = Some [(''proj'', PStr ''longlat''), (''datum'', PStr ''WGS84''),
                    (''no_defs'', PBool True)],
      d_read = True, d_transform = Some [0, 1, 0, 2, 0, - 1], d_driver = Some ''GTiff'',
      d_width = Some 2, d_height = Some 2, d_shape = Some (2, 2)\<rparr>"

text \<open>An engine that knows the one path, and a transfer that moves nothing.\<close>

definition example_open :: "string \<Rightarrow> native_ds option" where
  "example_open path = (if path = ''example.tif'' then Some example_ds else None)"

definition example_rio :: raster_io where
  "example_rio hband mode xoff yoff width height buf code = (hband, buf)"

section \<open>Properties of the window utilities\<close>

text \<open>
  Claim C1 (explicit zero bound). The claim says that a bound given as the integer 0 is
  evaluated as 0 and never replaced by its default, so that a stop of 0 after a
  positive start is rejected. The source reads the stop with \<^verbatim>\<open>r[1] or
  height\<close>, which takes the default for 0 as well as for \<^verbatim>\<open>None\<close>: the window
  \<^verbatim>\<open>((5, 0), (0, None))\<close> on a 10 by 10 raster is accepted and comes back as
  rows 5 to 10, where the range check that follows would have raised for rows 5 to 0.
\<close>

theorem eval_window_zero_stop_defaulted:
  "eval_window ((Some 5, Some 0), (Some 0, None)) 10 10 = Inr ((5, 10), (0, 10))
   \<and> eval_window ((Some 5, Some 0), (Some 0, None)) 10 10
       = eval_window ((Some 5, None), (Some 0, None)) 10 10
   \<and> eval_window ((Some 5, Some 0), (Some 0, None)) 10 10 \<noteq> Inl (InvalidRowRange 5 0)"
  by (simp add: eval_window_def py_or_def c_int_def)

text \<open>
  Claim C8 (cropping), as stated, is false: not every window of four integers is
  accepted. The bounds are unpacked into C \<^verbatim>\<open>int\<close> locals, and a bound of
  \<open>2\<^sup>3\<^sup>1\<close> does not fit one, so the call raises \<^verbatim>\<open>OverflowError\<close>.
\<close>

theorem crop_window_overflow:
  "crop_window ((-5, 2147483648), (0, 1)) 10 10 = Inl OverflowError"
  by (simp add: crop_window_def c_int_def)

text \<open>
  Claim C8, amended. For every window of four integers that fit a C \<^verbatim>\<open>int\<close>
  (in any order, negative or beyond the extent) and every non-negative height and width
  that fit one, \<^verbatim>\<open>crop_window\<close> raises no error and returns a window whose four
  bounds are each clamped on their own, the row bounds into \<open>[0, height]\<close> and the
  column bounds into \<open>[0, width]\<close>. The example of the specification evaluates to
  \<^verbatim>\<open>((0, 10), (0, 10))\<close>, and a result of no area, or one whose stop lies before
  its start, is returned without a further check.
\<close>

theorem crop_window_within_extent:
  assumes "0 \<le> height" and "0 \<le> width" and "c_int height" and "c_int width"
    and "c_int r0" and "c_int r1" and "c_int c0" and "c_int c1"
  shows "(\<exists>a b c d. crop_window ((r0, r1), (c0, c1)) height width = Inr ((a, b), (c, d))
           \<and> a = min (max r0 0) height \<and> b = max 0 (min r1 height)
           \<and> c = min (max c0 0) width \<and> d = max 0 (min c1 width)
           \<and> 0 \<le> a \<and> a \<le> height \<and> 0 \<le> b \<and> b \<le> height
           \<and> 0 \<le> c \<and> c \<le> width \<and> 0 \<le> d \<and> d \<le> width)
       \<and> crop_window ((-5, 15), (-3, 20)) 10 10 = Inr ((0, 10), (0, 10))
       \<and> crop_window ((20, 30), (4, 2)) 10 10 = Inr ((10, 10), (4, 2))"
proof -
  have "crop_window ((r0, r1), (c0, c1)) height width =
          Inr ((min (max r0 0) height, max 0 (min r1 height)),
               (min (max c0 0) width, max 0 (min c1 width)))"
    using assms(3-8) by (simp add: crop_window_def)
  moreover have "crop_window ((-5, 15), (-3, 20)) 10 10 = Inr ((0, 10), (0, 10))"
    by (simp add: crop_window_def c_int_def)
  moreover have "crop_window ((20, 30), (4, 2)) 10 10 = Inr ((10, 10), (4, 2))"
    by (simp add: crop_window_def c_int_def)
  ultimately show ?thesis
    using assms(1,2) by auto
qed

theorem crop_window_within_extent_witness:
  "crop_window ((-2, 9), (6, 1)) 7 4 = Inr ((0, 7), (4, 1))
   \<and> crop_window ((-5, 15), (-3, 20)) 10 10 = Inr ((0, 10), (0, 10))"
  using crop_window_within_extent [of 7 4 "-2" 9 6 1] by (simp add: c_int_def)

lemma eval_window_Inr:
  assumes "eval_window w0 h w = Inr ((a, b), (c, d))"
  shows "c_int h \<and> c_int w \<and> a \<le> b \<and> c \<le> d"
  using assms by (auto simp: eval_window_def Let_def split: prod.splits if_splits)

lemma eval_window_Inr_c_int:
  assumes "eval_window w0 h w = Inr ((a, b), (c, d))" and "0 \<le> a" and "0 < b" and "0 \<le> c" and "0 < d"
  shows "c_int a \<and> c_int b \<and> c_int c \<and> c_int d"
  using assms
  by (auto simp: eval_window_def Let_def c_int_def split: prod.splits if_splits)

text \<open>
  Claim C9 (idempotence), as stated, is false: a bound below \<open>- dimension\<close> is still
  negative after the dimension has been added once, evaluation accepts it, and a second
  evaluation adds the dimension again.
\<close>

theorem eval_window_not_idempotent:
  "eval_window ((Some (-20), Some (-15)), (None, None)) 10 10 = Inr ((-10, -5), (0, 10))
   \<and> eval_window (as_arg ((-10, -5), (0, 10))) 10 10 = Inr ((0, 5), (0, 10))
   \<and> eval_window (as_arg ((-10, -5), (0, 10))) 10 10
       \<noteq> eval_window ((Some (-20), Some (-15)), (None, None)) 10 10"
  by (simp add: eval_window_def py_or_def as_arg_def c_int_def)

text \<open>
  Claim C9, amended. For every window \<open>w0\<close> and every height and width that are not
  negative, if \<^verbatim>\<open>eval_window\<close> succeeds with a result whose starts are not
  negative and whose stops are positive, then evaluating that result again returns it
  unchanged.
\<close>

theorem eval_window_idempotent_nonneg:
  assumes "0 \<le> h" and "0 \<le> w"
    and "eval_window w0 h w = Inr ((a, b), (c, d))"
    and "0 \<le> a" and "0 < b" and "0 \<le> c" and "0 < d"
  shows "eval_window (as_arg ((a, b), (c, d))) h w = eval_window w0 h w"
proof -
  have "c_int h \<and> c_int w \<and> a \<le> b \<and> c \<le> d"
    using assms(3) by (rule eval_window_Inr)
  moreover have "c_int a \<and> c_int b \<and> c_int c \<and> c_int d"
    using assms(3-7) by (rule eval_window_Inr_c_int)
  ultimately have "eval_window (as_arg ((a, b), (c, d))) h w = Inr ((a, b), (c, d))"
    using assms(4-7) by (simp add: eval_window_def py_or_def Let_def as_arg_def)
  then show ?thesis
    using assms(3) by simp
qed

theorem eval_window_idempotent_nonneg_witness:
  "eval_window ((Some (-2), None), (Some 0, None)) 10 10 = Inr ((8, 10), (0, 10))
   \<and> eval_window (as_arg ((8, 10), (0, 10))) 10 10
       = eval_window ((Some (-2), None), (Some 0, None)) 10 10"
proof -
  have e: "eval_window ((Some (-2), None), (Some 0, None)) 10 10 = Inr ((8, 10), (0, 10))"
    by (simp add: eval_window_def py_or_def c_int_def)
  show ?thesis
    using e eval_window_idempotent_nonneg [OF _ _ e] by simp
qed

text \<open>
  Claim C10 (evaluation never clips), as stated, is false for a bound that does not fit
  a C \<^verbatim>\<open>int\<close>: the window \<^verbatim>\<open>((0, 2**31), (0, 1))\<close> has four present bounds
  with \<open>0 \<le> start \<le> stop\<close> and \<open>0 < stop\<close>, and its evaluation raises
  \<^verbatim>\<open>OverflowError\<close> where the claim has it returned unchanged.
\<close>

theorem eval_window_overflow:
  "eval_window ((Some 0, Some 2147483648), (Some 0, Some 1)) 10 10 = Inl OverflowError"
  by (simp add: eval_window_def py_or_def c_int_def)

text \<open>
  Claim C10, amended. A window whose four bounds are present and fit a C
  \<^verbatim>\<open>int\<close>, with \<open>0 \<le> start \<le> stop\<close> and \<open>0 < stop\<close> on each axis, is returned
  unchanged by \<^verbatim>\<open>eval_window\<close> for every non-negative height and width that fit
  one, whatever the size of its stops against the dimensions; it is
  \<^verbatim>\<open>crop_window\<close> that cuts the same bounds down to the dimensions.
\<close>

theorem eval_window_no_clip:
  assumes "0 \<le> a" and "a \<le> b" and "0 < b" and "0 \<le> c" and "c \<le> d" and "0 < d"
    and "0 \<le> height" and "0 \<le> width"
    and "c_int a" and "c_int b" and "c_int c" and "c_int d"
    and "c_int height" and "c_int width"
  shows "eval_window ((Some a, Some b), (Some c, Some d)) height width = Inr ((a, b), (c, d))
       \<and> crop_window ((a, b), (c, d)) height width
           = Inr ((min a height, min b height), (min c width, min d width))"
proof -
  have "eval_window ((Some a, Some b), (Some c, Some d)) height width = Inr ((a, b), (c, d))"
    using assms by (simp add: eval_window_def py_or_def Let_def)
  moreover have "crop_window ((a, b), (c, d)) height width
           = Inr ((min a height, min b height), (min c width, min d width))"
    using assms by (simp add: crop_window_def)
  ultimately show ?thesis by simp
qed

theorem eval_window_no_clip_witness:
  "eval_window ((Some 3, Some 25), (Some 0, Some 40)) 10 10 = Inr ((3, 25), (0, 40))
   \<and> crop_window ((3, 25), (0, 40)) 10 10 = Inr ((3, 10), (0, 10))"
  using eval_window_no_clip [of 3 25 0 40 10 10] by (simp add: c_int_def)

section \<open>Properties of block windows\<close>

lemma block_count_ceiling:
  assumes "0 < k"
  shows "block_count n k = \<lceil>of_int n / (of_int k :: real)\<rceil>"
proof (cases "n mod k = 0")
  case True
  then show ?thesis
    using assms by (simp add: block_count_def ceiling_divide_eq_div zdiv_zminus1_eq_if)
next
  case False
  moreover have "0 \<le> n mod k" using assms by simp
  ultimately have "0 < n mod k" by linarith
  then show ?thesis
    using assms False by (simp add: block_count_def ceiling_divide_eq_div zdiv_zminus1_eq_if)
qed

lemma block_count_covers:
  assumes "0 < k"
  shows "n \<le> block_count n k * k"
proof -
  have m: "0 \<le> n mod k" "n mod k < k" using assms by simp_all
  have "n = n div k * k + n mod k" by simp
  also have "\<dots> \<le> n div k * k + (if n mod k > 0 then k else 0)"
  proof (rule add_left_mono)
    show "n mod k \<le> (if n mod k > 0 then k else 0)" using m by auto
  qed
  also have "\<dots> = block_count n k * k"
    by (simp add: block_count_def distrib_right)
  finally show ?thesis .
qed

lemma block_count_pos:
  assumes "0 < k" and "0 < n"
  shows "0 < block_count n k"
proof -
  have "n \<le> block_count n k * k" using assms(1) by (rule block_count_covers)
  then have "0 < block_count n k * k" using assms(2) by linarith
  then show ?thesis using assms(1) by (simp add: zero_less_mult_iff)
qed

lemma length_range_upto: "length (range_upto n) = nat n"
  by (simp add: range_upto_def)

lemma nth_range_upto: "k < nat n \<Longrightarrow> range_upto n ! k = int k"
  by (simp add: range_upto_def)

lemma length_concat_rows:
  "(\<And>x. x \<in> set xs \<Longrightarrow> length (g x) = n) \<Longrightarrow> length (concat (map g xs)) = length xs * n"
  by (induction xs) auto

lemma nth_concat_rows:
  assumes "\<And>x. x \<in> set xs \<Longrightarrow> length (g x) = n" and "k < length xs * n"
  shows "concat (map g xs) ! k = g (xs ! (k div n)) ! (k mod n)"
  using assms
proof (induction xs arbitrary: k)
  case Nil
  then show ?case by simp
next
  case (Cons x xs)
  have n: "0 < n" using Cons.prems(2) by (cases n) auto
  show ?case
  proof (cases "k < n")
    case True
    then show ?thesis using Cons.prems(1) by (simp add: nth_append)
  next
    case False
    then have kn: "n \<le> k" by simp
    then have "k - n < length xs * n" using Cons.prems(2) by simp
    then have "concat (map g xs) ! (k - n) = g (xs ! ((k - n) div n)) ! ((k - n) mod n)"
      using Cons.IH Cons.prems(1) by simp
    moreover have "k div n = Suc ((k - n) div n)" using kn n by (simp add: le_div_geq)
    moreover have "k mod n = (k - n) mod n" using kn by (simp add: le_mod_geq)
    ultimately show ?thesis using False Cons.prems(1) by (simp add: nth_append)
  qed
qed

lemma div_unique_block:
  assumes "0 < (h::int)"
  shows "j * h \<le> r \<and> r < j * h + h \<longleftrightarrow> j = r div h"
proof
  assume a: "j * h \<le> r \<and> r < j * h + h"
  have "r = h * j + (r - j * h)" by (simp add: algebra_simps)
  then show "j = r div h"
    using a int_div_pos_eq [of r h j "r - j * h"] by simp
next
  assume "j = r div h"
  moreover have "r = r div h * h + r mod h" by simp
  moreover have "0 \<le> r mod h" "r mod h < h" using assms by simp_all
  ultimately show "j * h \<le> r \<and> r < j * h + h" by (smt (verit))
qed


lemma block_count_tight:
  assumes "0 < k"
  shows "(block_count n k - 1) * k < n"
proof -
  have m: "0 \<le> n mod k" "n mod k < k" using assms by simp_all
  have e: "n = n div k * k + n mod k" by simp
  show ?thesis
  proof (cases "n mod k > 0")
    case True
    then have "(block_count n k - 1) * k = n div k * k" by (simp add: block_count_def)
    also have "\<dots> < n div k * k + n mod k" using True by linarith
    also have "\<dots> = n" by simp
    finally show ?thesis .
  next
    case False
    then have z: "n mod k = 0" using m by linarith
    have "(block_count n k - 1) * k = n div k * k - k"
      using False by (simp add: block_count_def left_diff_distrib)
    also have "\<dots> < n div k * k + n mod k" using assms z by linarith
    also have "\<dots> = n" by simp
    finally show ?thesis .
  qed
qed

lemma axis_block:
  assumes "0 < h" and "0 \<le> r" and "r < n"
  shows "0 \<le> r div h \<and> r div h < block_count n h"
proof -
  have "0 \<le> r div h" using assms by (simp add: pos_imp_zdiv_nonneg_iff)
  moreover have "r div h * h \<le> r" using assms(1) div_unique_block [of h "r div h" r] by simp
  then have "r div h * h < block_count n h * h"
    using assms(3) block_count_covers [OF assms(1), of n] by linarith
  then have "r div h < block_count n h" using assms(1) by (simp add: mult_less_cancel_right)
  ultimately show ?thesis by simp
qed

lemma add_min_clip: "a + min h (n - a) = min (a + h) (n::int)"
  by (simp add: min_def)

lemma block_windows_value:
  assumes "1 \<le> bidx" and "bidx \<le> int (length shapes)"
    and "shapes ! nat (bidx - 1) = (h, w)" and "0 < h" and "0 < w"
  shows "block_windows shapes height width bidx =
     Inr (concat (map (\<lambda>j. map (\<lambda>i. ((j, i), ((j * h, min (j * h + h) height),
                                                 (i * w, min (i * w + w) width))))
                              (range_upto (block_count width w)))
                 (range_upto (block_count height h))))"
  using assms by (simp add: block_windows_def py_index_def Let_def add_min_clip)


text \<open>
  Claim C2 (block windows tile the dataset). For a band index within the bands, whose
  block shape is \<open>(h, w)\<close> with \<open>h > 0\<close> and \<open>w > 0\<close>, on a dataset of positive
  height and width, \<^verbatim>\<open>block_windows\<close> raises nothing and yields exactly
  \<open>\<lceil>height / h\<rceil> * \<lceil>width / w\<rceil>\<close> pairs. The pair at position \<open>k\<close> has the block
  index \<open>(k div ncols, k mod ncols)\<close>, which is row-major order, and its window starts
  at the block's origin and stops at the next origin or at the dataset's edge, whichever
  comes first. Every window is non-empty and lies within the extent, and every pixel of
  the extent lies in the window of exactly one position: no gaps and no overlaps.
\<close>

theorem block_windows_tile:
  assumes "1 \<le> bidx" and "bidx \<le> int (length shapes)"
    and "shapes ! nat (bidx - 1) = (h, w)"
    and "0 < h" and "0 < w" and "0 < height" and "0 < width"
  shows "\<exists>ys nrows ncols.
           block_windows shapes height width bidx = Inr ys
         \<and> int nrows = \<lceil>of_int height / (of_int h :: real)\<rceil>
         \<and> int ncols = \<lceil>of_int width / (of_int w :: real)\<rceil>
         \<and> length ys = nrows * ncols
         \<and> (\<forall>k < length ys.
               ys ! k = (let j = int (k div ncols); i = int (k mod ncols)
                         in ((j, i), ((j * h, min (j * h + h) height),
                                      (i * w, min (i * w + w) width)))))
         \<and> (\<forall>k < length ys.
               case snd (ys ! k) of ((r0, r1), (c0, c1)) \<Rightarrow>
                 0 \<le> r0 \<and> r0 < r1 \<and> r1 \<le> height \<and> 0 \<le> c0 \<and> c0 < c1 \<and> c1 \<le> width)
         \<and> (\<forall>r c. 0 \<le> r \<and> r < height \<and> 0 \<le> c \<and> c < width \<longrightarrow>
               (\<exists>!k. k < length ys \<and> inside (snd (ys ! k)) r c))"
proof -
  define nr where "nr = nat (block_count height h)"
  define nc where "nc = nat (block_count width w)"
  define f where "f = (\<lambda>j i. ((j, i), ((j * h, min (j * h + h) height),
                                       (i * w, min (i * w + w) width))))"
  define ys where "ys = concat (map (\<lambda>j. map (f j) (range_upto (block_count width w)))
                                    (range_upto (block_count height h)))"
  have val: "block_windows shapes height width bidx = Inr ys"
    unfolding ys_def f_def using assms(1-5) by (rule block_windows_value)
  have nr_pos: "0 < nr" and nc_pos: "0 < nc"
    using block_count_pos assms by (simp_all add: nr_def nc_def)
  have nr_int: "int nr = block_count height h" and nc_int: "int nc = block_count width w"
    using block_count_pos [of h height] block_count_pos [of w width] assms
    by (simp_all add: nr_def nc_def)
  have len: "length ys = nr * nc"
    unfolding ys_def
    by (subst length_concat_rows [where n = nc])
       (simp_all add: length_range_upto nr_def nc_def)
  have nth: "ys ! k = f (int (k div nc)) (int (k mod nc))" if "k < nr * nc" for k
  proof -
    have d: "k div nc < nr" using that nc_pos by (simp add: less_mult_imp_div_less)
    have m: "k mod nc < nc" using nc_pos by simp
    have "ys ! k = map (f (range_upto (block_count height h) ! (k div nc)))
                       (range_upto (block_count width w)) ! (k mod nc)"
      unfolding ys_def using that
      by (subst nth_concat_rows [where n = nc])
         (simp_all add: length_range_upto nr_def nc_def)
    then show ?thesis
      using d m by (simp add: length_range_upto nth_range_upto nr_def nc_def)
  qed
  have row_in: "int j * h < height" if "j < nr" for j
  proof -
    have "int j \<le> block_count height h - 1" using that nr_int by linarith
    then have "int j * h \<le> (block_count height h - 1) * h"
      using assms(4) by (simp add: mult_right_mono)
    then show ?thesis using block_count_tight [OF assms(4), of height] by linarith
  qed
  have col_in: "int i * w < width" if "i < nc" for i
  proof -
    have "int i \<le> block_count width w - 1" using that nc_int by linarith
    then have "int i * w \<le> (block_count width w - 1) * w"
      using assms(5) by (simp add: mult_right_mono)
    then show ?thesis using block_count_tight [OF assms(5), of width] by linarith
  qed
  have bounded: "case snd (ys ! k) of ((r0, r1), (c0, c1)) \<Rightarrow>
                   0 \<le> r0 \<and> r0 < r1 \<and> r1 \<le> height \<and> 0 \<le> c0 \<and> c0 < c1 \<and> c1 \<le> width"
    if "k < length ys" for k
  proof -
    have k: "k < nr * nc" using that len by simp
    have d: "k div nc < nr" using k nc_pos by (simp add: less_mult_imp_div_less)
    have m: "k mod nc < nc" using nc_pos by simp
    show ?thesis
      using nth [OF k] row_in [OF d] col_in [OF m] assms(4,5)
      by (simp add: f_def)
  qed
  have tile: "\<exists>!k. k < length ys \<and> inside (snd (ys ! k)) r c"
    if rc: "0 \<le> r \<and> r < height \<and> 0 \<le> c \<and> c < width" for r c
  proof -
    define j where "j = nat (r div h)"
    define i where "i = nat (c div w)"
    have jr: "int j = r div h" "j < nr"
      using axis_block [OF assms(4), of r height] rc nr_int unfolding j_def by linarith+
    have ic: "int i = c div w" "i < nc"
      using axis_block [OF assms(5), of c width] rc nc_int unfolding i_def by linarith+
    have ins: "inside (snd (f (int j') (int i'))) r c \<longleftrightarrow> j' = j \<and> i' = i" for j' i'
    proof -
      have "int j' * h \<le> r \<and> r < int j' * h + h \<longleftrightarrow> int j' = r div h"
        using assms(4) by (rule div_unique_block)
      moreover have "int i' * w \<le> c \<and> c < int i' * w + w \<longleftrightarrow> int i' = c div w"
        using assms(5) by (rule div_unique_block)
      ultimately show ?thesis
        using rc jr(1) ic(1) by (auto simp: inside_def f_def)
    qed
    define k where "k = j * nc + i"
    have k_lt: "k < nr * nc"
    proof -
      have "k < j * nc + nc" using ic(2) by (simp add: k_def)
      also have "\<dots> = Suc j * nc" by simp
      also have "\<dots> \<le> nr * nc" using jr(2) by (intro mult_le_mono1) simp
      finally show ?thesis .
    qed
    have k_dm: "k div nc = j" "k mod nc = i"
      using ic(2) by (simp_all add: k_def)
    show ?thesis
    proof (rule ex1I [of _ k])
      show "k < length ys \<and> inside (snd (ys ! k)) r c"
        using k_lt len nth [OF k_lt] k_dm ins by simp
    next
      fix k'
      assume a: "k' < length ys \<and> inside (snd (ys ! k')) r c"
      then have k': "k' < nr * nc" using len by simp
      have "k' div nc = j \<and> k' mod nc = i"
        using a nth [OF k'] ins by simp
      then have "k' = j * nc + i"
        using div_mult_mod_eq [of k' nc] by simp
      then show "k' = k" by (simp add: k_def)
    qed
  qed
  have "int nr = \<lceil>of_int height / (of_int h :: real)\<rceil>"
    using nr_int block_count_ceiling [OF assms(4), of height] by simp
  moreover have "int nc = \<lceil>of_int width / (of_int w :: real)\<rceil>"
    using nc_int block_count_ceiling [OF assms(5), of width] by simp
  moreover have "\<forall>k < length ys.
               ys ! k = (let j = int (k div nc); i = int (k mod nc)
                         in ((j, i), ((j * h, min (j * h + h) height),
                                      (i * w, min (i * w + w) width))))"
    using nth len by (simp add: f_def Let_def)
  ultimately show ?thesis
    using val len bounded tile by blast
qed

theorem block_windows_tile_witness:
  "block_windows [(2, 2)] 3 3 1 =
     Inr [((0, 0), ((0, 2), (0, 2))), ((0, 1), ((0, 2), (2, 3))),
          ((1, 0), ((2, 3), (0, 2))), ((1, 1), ((2, 3), (2, 3)))]
   \<and> (\<exists>ys nrows ncols. block_windows [(2, 2)] 3 3 1 = Inr ys
        \<and> int nrows = \<lceil>3 / (2 :: real)\<rceil> \<and> int ncols = \<lceil>3 / (2 :: real)\<rceil>
        \<and> length ys = nrows * ncols)"
proof -
  have v: "block_windows [(2, 2)] 3 3 1 =
     Inr [((0, 0), ((0, 2), (0, 2))), ((0, 1), ((0, 2), (2, 3))),
          ((1, 0), ((2, 3), (0, 2))), ((1, 1), ((2, 3), (2, 3)))]"
    by (simp add: block_windows_def py_index_def block_count_def range_upto_def upto.simps)
  show ?thesis
    using v block_windows_tile [of 1 "[(2, 2)]" 2 2 3 3] by auto
qed

section \<open>Properties of double-precision arithmetic\<close>

text \<open>
  Rounding moves a number by at most half a unit in its last place: by a relative
  \<open>2\<^sup>-\<^sup>5\<^sup>3\<close> in the normal range and by \<open>2\<^sup>-\<^sup>1\<^sup>0\<^sup>7\<^sup>5\<close> below it.
\<close>

lemma round_even_err: "\<bar>of_int (round_even y) - y\<bar> \<le> 1 / 2"
proof -
  have "of_int \<lfloor>y\<rfloor> \<le> y" "y < of_int \<lfloor>y\<rfloor> + 1" by linarith+
  then show ?thesis
    by (auto simp: round_even_def Let_def)
qed

lemma round_even_of_int: "round_even (of_int n) = n"
  by (simp add: round_even_def)

lemma exp_search_inv: "exp_search k e x = e \<or> 2 powi (exp_search k e x) \<le> x"
proof (induction k arbitrary: e)
  case 0
  then show ?case by simp
next
  case (Suc k)
  show ?case
  proof (cases "x < 2 powi (e + 1)")
    case True
    then show ?thesis by simp
  next
    case False
    then have "2 powi (e + 1) \<le> x" by simp
    with Suc [of "e + 1"] False show ?thesis by auto
  qed
qed

lemma exp_search_eq:
  assumes "e \<le> r" and "nat (r - e) \<le> k" and "r = e \<or> 2 powi r \<le> x" and "x < 2 powi (r + 1)"
  shows "exp_search k e x = r"
  using assms
proof (induction k arbitrary: e)
  case 0
  then show ?case by simp
next
  case (Suc k)
  show ?case
  proof (cases "r = e")
    case True
    then show ?thesis using Suc.prems by simp
  next
    case False
    then have lt: "e < r" using Suc.prems(1) by simp
    then have "2 powi (e + 1) \<le> (2::real) powi r"
      by (intro power_int_increasing) simp_all
    moreover have "2 powi r \<le> x" using Suc.prems(3) False by simp
    ultimately have "\<not> x < 2 powi (e + 1)" by linarith
    moreover have "exp_search k (e + 1) x = r"
      using lt Suc.prems by (intro Suc.IH) auto
    ultimately show ?thesis by simp
  qed
qed

lemma fl_err: "\<bar>fl x - x\<bar> \<le> \<bar>x\<bar> / 2 ^ 53 + 1 / 2 ^ 1075"
proof -
  define e where "e = dbl_exp x"
  define s :: real where "s = 2 powi (e - 52)"
  have s: "0 < s" by (simp add: s_def)
  have "fl x - x = (of_int (round_even (x / s)) - x / s) * s"
    using s by (simp add: fl_def e_def s_def left_diff_distrib)
  then have "\<bar>fl x - x\<bar> = \<bar>of_int (round_even (x / s)) - x / s\<bar> * s"
    using s by (simp add: abs_mult)
  also have "\<dots> \<le> 1 / 2 * s"
    using s round_even_err [of "x / s"] by (intro mult_right_mono) simp_all
  also have "\<dots> = 2 powi (e - 53)"
    by (simp add: s_def power_int_diff)
  finally have b: "\<bar>fl x - x\<bar> \<le> 2 powi (e - 53)" .
  have "e = - 1022 \<or> 2 powi e \<le> \<bar>x\<bar>"
    unfolding e_def dbl_exp_def by (rule exp_search_inv)
  then show ?thesis
  proof
    assume "e = - 1022"
    then have "(2::real) powi (e - 53) = 1 / 2 ^ 1075"
      by (simp add: power_int_minus inverse_eq_divide)
    then show ?thesis using b by simp
  next
    assume "2 powi e \<le> \<bar>x\<bar>"
    moreover have "(2::real) powi (e - 53) = 2 powi e / 2 ^ 53"
      by (simp add: power_int_diff)
    ultimately have "(2::real) powi (e - 53) \<le> \<bar>x\<bar> / 2 ^ 53"
      by (simp add: divide_right_mono)
    then show ?thesis using b by simp
  qed
qed




lemma sum_bind_Inr: "sum_bind (Inr v) f = f v"
  by (simp add: sum_bind_def)

lemma sum_bind_Inl: "sum_bind (Inl err) f = Inl err"
  by (simp add: sum_bind_def)

lemma fl_zero: "fl 0 = 0"
  by (simp add: fl_def round_even_def)

lemma fl_exact:
  assumes "- 1022 \<le> r" and "r \<le> 1023" and "2 powi r \<le> \<bar>x\<bar>" and "\<bar>x\<bar> < 2 powi (r + 1)"
    and "x = of_int m * 2 powi (r - 52)"
  shows "fl x = x"
proof -
  have e: "dbl_exp x = r"
    unfolding dbl_exp_def using assms(1-4) by (intro exp_search_eq) auto
  have q: "x / 2 powi (r - 52) = of_int m"
    by (simp add: assms(5))
  have "fl x = of_int (round_even (x / 2 powi (r - 52))) * 2 powi (r - 52)"
    by (simp add: fl_def e)
  then have "fl x = of_int m * 2 powi (r - 52)"
    by (simp only: q round_even_of_int)
  then show ?thesis using assms(5) by simp
qed

lemma fl_one: "fl 1 = 1"
  using fl_exact [of 0 1 "2 ^ 52"] by (simp add: power_int_minus)

lemma fl_two: "fl 2 = 2"
  using fl_exact [of 1 2 "2 ^ 52"] by (simp add: power_int_minus)

lemma fl_minus_one: "fl (- 1) = - 1"
proof (rule fl_exact [where r = 0 and m = "- (2 ^ 52)"])
  show "(- 1 :: real) = of_int (- (2 ^ 52)) * 2 powi (0 - 52)"
    by (simp add: power_int_minus)
qed simp_all

lemma fl_finite:
  assumes "\<bar>x\<bar> \<le> 2 ^ 1000"
  shows "\<bar>fl x\<bar> < 2 ^ 1024"
proof -
  have "\<bar>x\<bar> / 2 ^ 53 \<le> \<bar>x\<bar>"
    by (simp add: field_simps)
  moreover have "(1::real) / 2 ^ 1075 \<le> 1"
    by simp
  ultimately have "\<bar>fl x\<bar> \<le> 2 * 2 ^ 1000 + 1"
    using fl_err [of x] assms by linarith
  then show ?thesis by simp
qed

lemma dbl_Inr: "\<bar>x\<bar> \<le> 2 ^ 1000 \<Longrightarrow> dbl x = Inr (fl x)"
  using fl_finite [of x] by (simp add: dbl_def)

lemma fl_near:
  assumes "1 \<le> B" and "\<bar>x\<bar> \<le> 8 * B"
  shows "\<bar>fl x - x\<bar> \<le> B / 2 ^ 49"
proof -
  have "\<bar>x\<bar> / 2 ^ 53 \<le> 8 * B / 2 ^ 53"
    using assms(2) by (simp add: divide_right_mono)
  moreover have "(1::real) / 2 ^ 1075 \<le> 1 / 2 ^ 50"
    by simp
  moreover have "1 / 2 ^ 50 \<le> B / 2 ^ 50"
    using assms(1) by (simp add: divide_right_mono)
  ultimately show ?thesis
    using fl_err [of x] by simp
qed

lemma fl_div_err:
  assumes "s \<noteq> 0"
  shows "\<bar>fl (t / s) * s - t\<bar> \<le> \<bar>t\<bar> / 2 ^ 53 + \<bar>s\<bar> / 2 ^ 1075"
proof -
  have "fl (t / s) * s - t = (fl (t / s) - t / s) * s"
    using assms by (simp add: left_diff_distrib)
  then have "\<bar>fl (t / s) * s - t\<bar> = \<bar>fl (t / s) - t / s\<bar> * \<bar>s\<bar>"
    by (simp add: abs_mult)
  also have "\<dots> \<le> (\<bar>t / s\<bar> / 2 ^ 53 + 1 / 2 ^ 1075) * \<bar>s\<bar>"
    using fl_err [of "t / s"] by (intro mult_right_mono) simp_all
  also have "\<dots> = \<bar>t\<bar> / 2 ^ 53 + \<bar>s\<bar> / 2 ^ 1075"
    using assms by (simp add: distrib_right)
  finally show ?thesis .
qed

lemma fl_mult_err: "\<bar>fl x * s - x * s\<bar> \<le> \<bar>x * s\<bar> / 2 ^ 53 + \<bar>s\<bar> / 2 ^ 1075"
proof -
  have "fl x * s - x * s = (fl x - x) * s"
    by (simp add: left_diff_distrib)
  then have "\<bar>fl x * s - x * s\<bar> = \<bar>fl x - x\<bar> * \<bar>s\<bar>"
    by (simp add: abs_mult)
  also have "\<dots> \<le> (\<bar>x\<bar> / 2 ^ 53 + 1 / 2 ^ 1075) * \<bar>s\<bar>"
    using fl_err [of x] by (intro mult_right_mono) simp_all
  also have "\<dots> = \<bar>x * s\<bar> / 2 ^ 53 + \<bar>s\<bar> / 2 ^ 1075"
    by (simp add: distrib_right abs_mult)
  finally show ?thesis .
qed

lemma dbl_zero: "dbl 0 = Inr 0"
  by (simp add: dbl_def fl_zero)

lemma dbl_one: "dbl 1 = Inr 1"
  by (simp add: dbl_def fl_one)

lemma dbl_two: "dbl 2 = Inr 2"
  by (simp add: dbl_def fl_two)

lemma dbl_minus_one: "dbl (- 1) = Inr (- 1)"
  by (simp add: dbl_def fl_minus_one)

lemma fl_tenth: "0 < fl (1 / 10)" "fl (1 / 10) < 1"
proof -
  have "(1 / 10 :: real) / 2 ^ 53 \<le> 1 / 100" "(1::real) / 2 ^ 1075 \<le> 1 / 100"
    by simp_all
  then have "\<bar>fl (1 / 10) - 1 / 10\<bar> \<le> 2 / 100"
    using fl_err [of "1 / 10"] by simp
  then show "0 < fl (1 / 10)" "fl (1 / 10) < 1"
    by linarith+
qed

lemma floor_fl_tenth: "\<lfloor>fl (1 / 10)\<rfloor> = 0"
  using fl_tenth by (intro floor_unique) simp_all

lemma ceiling_fl_tenth: "\<lceil>fl (1 / 10)\<rceil> = 1"
  using fl_tenth by (intro ceiling_unique) simp_all

lemma pow_ten_bounds:
  assumes "0 \<le> p"
  shows "0 < (10::real) powi (- p)" "(10::real) powi (- p) \<le> 1"
proof -
  show "0 < (10::real) powi (- p)" by simp
  have "(10::real) powi (- p) \<le> 10 powi 0"
    using assms by (intro power_int_increasing) simp_all
  then show "(10::real) powi (- p) \<le> 1" by simp
qed

lemma fl_unit:
  assumes "\<bar>x\<bar> \<le> 2"
  shows "\<bar>fl x - x\<bar> \<le> 1 / 2 ^ 51"
proof -
  have "\<bar>x\<bar> / 2 ^ 53 \<le> 2 / 2 ^ 53"
    using assms by (simp add: divide_right_mono)
  moreover have "(1::real) / 2 ^ 1075 \<le> 1 / 2 ^ 52"
    by simp
  ultimately show ?thesis
    using fl_err [of x] by simp
qed

lemma dbl_small: "\<bar>x\<bar> \<le> 4 \<Longrightarrow> dbl x = Inr (fl x)"
  by (rule dbl_Inr) simp

lemma eps_floor:
  assumes "0 \<le> p"
  shows "dbl (10 powi (- p)) = Inr (fl (10 powi (- p)))"
    and "dbl (fl (10 powi (- p))) = Inr (fl (fl (10 powi (- p))))"
    and "\<bar>fl (fl (10 powi (- p))) - 10 powi (- p)\<bar> \<le> 1 / 2 ^ 50"
proof -
  define E :: real where "E = 10 powi (- p)"
  have E: "0 < E" "E \<le> 1" using pow_ten_bounds [OF assms] by (simp_all add: E_def)
  have 1: "\<bar>fl E - E\<bar> \<le> 1 / 2 ^ 51" using E by (intro fl_unit) simp
  moreover have "(1::real) / 2 ^ 51 \<le> 1" by simp
  ultimately have b: "\<bar>fl E\<bar> \<le> 2" using E by linarith
  have 2: "\<bar>fl (fl E) - fl E\<bar> \<le> 1 / 2 ^ 51" using b by (rule fl_unit)
  show "dbl (10 powi (- p)) = Inr (fl (10 powi (- p)))"
    using E unfolding E_def [symmetric] by (intro dbl_small) simp
  show "dbl (fl (10 powi (- p))) = Inr (fl (fl (10 powi (- p))))"
    using b unfolding E_def [symmetric] by (intro dbl_small) simp
  have "\<bar>fl (fl E) - E\<bar> \<le> 1 / 2 ^ 51 + 1 / 2 ^ 51"
    using 1 2 by linarith
  also have "\<dots> = 1 / 2 ^ 50" by simp
  finally show "\<bar>fl (fl (10 powi (- p))) - 10 powi (- p)\<bar> \<le> 1 / 2 ^ 50"
    unfolding E_def .
qed

lemma eps_ceiling:
  assumes "0 \<le> p"
  shows "dbl (- fl (10 powi (- p))) = Inr (fl (- fl (10 powi (- p))))"
    and "\<bar>fl (- fl (10 powi (- p))) + 10 powi (- p)\<bar> \<le> 1 / 2 ^ 50"
proof -
  define E :: real where "E = 10 powi (- p)"
  have E: "0 < E" "E \<le> 1" using pow_ten_bounds [OF assms] by (simp_all add: E_def)
  have 1: "\<bar>fl E - E\<bar> \<le> 1 / 2 ^ 51" using E by (intro fl_unit) simp
  moreover have "(1::real) / 2 ^ 51 \<le> 1" by simp
  ultimately have b: "\<bar>- fl E\<bar> \<le> 2" using E by linarith
  have 2: "\<bar>fl (- fl E) - (- fl E)\<bar> \<le> 1 / 2 ^ 51" using b by (rule fl_unit)
  show "dbl (- fl (10 powi (- p))) = Inr (fl (- fl (10 powi (- p))))"
    using b unfolding E_def [symmetric] by (intro dbl_small) simp
  have "\<bar>fl (- fl E) + E\<bar> \<le> 1 / 2 ^ 51 + 1 / 2 ^ 51"
    using 1 2 by linarith
  also have "\<dots> = 1 / 2 ^ 50" by simp
  finally show "\<bar>fl (- fl (10 powi (- p))) + 10 powi (- p)\<bar> \<le> 1 / 2 ^ 50"
    unfolding E_def .
qed

lemma fl_bound:
  assumes "\<bar>x\<bar> \<le> M" and "1 \<le> M"
  shows "\<bar>fl x\<bar> \<le> 2 * M"
proof -
  have "\<bar>x\<bar> / 2 ^ 53 \<le> \<bar>x\<bar> / 2"
    by (intro divide_left_mono) simp_all
  moreover have "(1::real) / 2 ^ 1075 \<le> 1 / 2"
    by simp
  ultimately show ?thesis
    using fl_err [of x] assms by linarith
qed

lemma axis_round_trip:
  fixes B w c s :: real and n :: int
  assumes B: "1 \<le> B" "B \<le> 2 ^ 100"
    and w: "\<bar>w\<bar> \<le> 3 * B" and c: "\<bar>c\<bar> \<le> B"
    and s: "1 / 2 ^ 100 \<le> \<bar>s\<bar>" "\<bar>s\<bar> \<le> B"
    and n: "\<bar>of_int n - fl (fl (w - c) / s)\<bar> \<le> 1"
  shows "dbl (w - c) = Inr (fl (w - c))"
    and "dbl (fl (w - c) / s) = Inr (fl (fl (w - c) / s))"
    and "dbl (of_int n) = Inr (fl (of_int n))"
    and "dbl (fl (of_int n) * s) = Inr (fl (fl (of_int n) * s))"
    and "dbl (fl (fl (of_int n) * s)) = Inr (fl (fl (fl (of_int n) * s)))"
    and "dbl (fl (fl (fl (of_int n) * s)) + c) = Inr (fl (fl (fl (fl (of_int n) * s)) + c))"
    and "of_int n * s \<le> fl (fl (w - c) / s) * s \<Longrightarrow>
           fl (fl (fl (fl (of_int n) * s)) + c) \<le> w + 6 * (B / 2 ^ 49)"
    and "fl (fl (w - c) / s) * s \<le> of_int n * s \<Longrightarrow>
           w - 6 * (B / 2 ^ 49) \<le> fl (fl (fl (fl (of_int n) * s)) + c)"
proof -
  let ?t2 = "fl (w - c)"
  let ?q = "fl (?t2 / s)"
  let ?nf = "fl (of_int n)"
  let ?xa = "fl (?nf * s)"
  let ?xs = "fl ?xa"
  let ?x = "fl (?xs + c)"
  define u where "u = B / 2 ^ 49"
  have u: "0 \<le> u" "100 * u \<le> B"
    using B(1) by (simp_all add: u_def)
  have st: "\<bar>fl x - x\<bar> \<le> u" if "\<bar>x\<bar> \<le> 8 * B" for x
    using fl_near [OF B(1) that] by (simp add: u_def)
  have big: "8 * B \<le> 2 ^ 1000"
    using B(2) by simp
  have fin: "dbl x = Inr (fl x)" if "\<bar>x\<bar> \<le> 8 * B" for x
    using that big by (intro dbl_Inr) linarith
  have small: "\<bar>t\<bar> / 2 ^ 53 + \<bar>s\<bar> / 2 ^ 1075 \<le> u" if "\<bar>t\<bar> \<le> 7 * B" for t
  proof -
    have "\<bar>t\<bar> / 2 ^ 53 \<le> 7 * B / 2 ^ 53"
      using that by (simp add: divide_right_mono)
    moreover have "\<bar>s\<bar> / 2 ^ 1075 \<le> B / 2 ^ 1075"
      using s(2) by (simp add: divide_right_mono)
    moreover have "B / 2 ^ 1075 \<le> B / 2 ^ 53"
      using B(1) by (intro divide_left_mono) simp_all
    moreover have "7 * B / 2 ^ 53 + B / 2 ^ 53 \<le> u"
      unfolding u_def using B(1) by simp
    ultimately show ?thesis by linarith
  qed
  have a1: "\<bar>w - c\<bar> \<le> 8 * B" using w c by linarith
  have e1: "\<bar>?t2 - (w - c)\<bar> \<le> u" using a1 by (rule st)
  have b1: "\<bar>?t2\<bar> \<le> 4 * B + u" using e1 w c by linarith
  have b1': "\<bar>?t2\<bar> \<le> 7 * B" using b1 u B(1) by linarith
  have s0: "s \<noteq> 0" using s(1) by auto
  have e2: "\<bar>?q * s - ?t2\<bar> \<le> u"
    using fl_div_err [OF s0, of ?t2] small [OF b1'] by linarith
  have "\<bar>?t2 / s\<bar> = \<bar>?t2\<bar> / \<bar>s\<bar>" by simp
  also have "\<dots> \<le> (7 * B) / (1 / 2 ^ 100)"
    using b1' s(1) by (intro frac_le) simp_all
  also have "\<dots> = 7 * B * 2 ^ 100" by simp
  also have "\<dots> \<le> 7 * 2 ^ 100 * 2 ^ 100" using B(2) by simp
  also have "\<dots> \<le> 2 ^ 210" by simp
  finally have qd: "\<bar>?t2 / s\<bar> \<le> 2 ^ 210" .
  have p1: "(2::real) ^ 210 \<le> 2 ^ 1000" "(1::real) \<le> 2 ^ 210" "2 * (2::real) ^ 210 + 1 \<le> 2 ^ 1000"
    by simp_all
  have qb: "\<bar>?q\<bar> \<le> 2 * 2 ^ 210" using qd p1(2) by (rule fl_bound)
  have nb: "\<bar>of_int n :: real\<bar> \<le> 2 ^ 1000" using n qb p1(3) by linarith
  have "of_int n * s - ?q * s = (of_int n - ?q) * s"
    by (simp add: left_diff_distrib)
  then have "\<bar>of_int n * s - ?q * s\<bar> = \<bar>of_int n - ?q\<bar> * \<bar>s\<bar>"
    by (simp add: abs_mult)
  also have "\<dots> \<le> 1 * \<bar>s\<bar>"
    using n by (intro mult_right_mono) simp_all
  finally have ns: "\<bar>of_int n * s - ?q * s\<bar> \<le> B" using s(2) by simp
  have b3: "\<bar>of_int n * s\<bar> \<le> 5 * B + 2 * u" using ns e2 b1 by linarith
  have b3': "\<bar>of_int n * s\<bar> \<le> 7 * B" using b3 u B(1) by linarith
  have e3: "\<bar>?nf * s - of_int n * s\<bar> \<le> u"
    using fl_mult_err [of "of_int n" s] small [OF b3'] by linarith
  have b4: "\<bar>?nf * s\<bar> \<le> 8 * B" using e3 b3 u B(1) by linarith
  have e4: "\<bar>?xa - ?nf * s\<bar> \<le> u" using b4 by (rule st)
  have b5: "\<bar>?xa\<bar> \<le> 8 * B" using e4 e3 b3 u B(1) by linarith
  have e5: "\<bar>?xs - ?xa\<bar> \<le> u" using b5 by (rule st)
  have b6: "\<bar>?xs + c\<bar> \<le> 8 * B" using e5 e4 e3 b3 c u B(1) by linarith
  have e6: "\<bar>?x - (?xs + c)\<bar> \<le> u" using b6 by (rule st)
  show "dbl (w - c) = Inr ?t2" using a1 by (rule fin)
  show "dbl (?t2 / s) = Inr ?q" using qd p1(1) by (intro dbl_Inr) linarith
  show "dbl (of_int n) = Inr ?nf" using nb by (rule dbl_Inr)
  show "dbl (?nf * s) = Inr ?xa" using b4 by (rule fin)
  show "dbl ?xa = Inr ?xs" using b5 by (rule fin)
  show "dbl (?xs + c) = Inr ?x" using b6 by (rule fin)
  show "?x \<le> w + 6 * (B / 2 ^ 49)" if "of_int n * s \<le> ?q * s"
    using that e1 e2 e3 e4 e5 e6 unfolding u_def by linarith
  show "w - 6 * (B / 2 ^ 49) \<le> ?x" if "?q * s \<le> of_int n * s"
    using that e1 e2 e3 e4 e5 e6 unfolding u_def by linarith
qed

section \<open>Properties of coordinate indexing\<close>

lemma get_index_floor:
  assumes "0 \<le> p"
  shows "get_index x y (a, b, c, d, e, f) floor p =
     (if e = 0 then Inl ZeroDivisionError else
      sum_bind (dbl (y - fl (fl (10 powi (- p))))) (\<lambda>y1.
      sum_bind (dbl (y1 - f)) (\<lambda>y2.
      sum_bind (dbl (y2 / e)) (\<lambda>yq.
      if a = 0 then Inl ZeroDivisionError else
      sum_bind (dbl (x + fl (fl (10 powi (- p))))) (\<lambda>x1.
      sum_bind (dbl (x1 - c)) (\<lambda>x2.
      sum_bind (dbl (x2 / a)) (\<lambda>xq.
      Inr (\<lfloor>yq\<rfloor>, \<lfloor>xq\<rfloor>))))))))"
  unfolding get_index_def Let_def
  by (simp add: eps_floor(1,2) [OF assms] floor_fl_tenth dbl_zero dbl_one sum_bind_Inr)

lemma get_index_ceiling:
  assumes "0 \<le> p"
  shows "get_index x y (a, b, c, d, e, f) ceiling p =
     (if e = 0 then Inl ZeroDivisionError else
      sum_bind (dbl (y - fl (- fl (10 powi (- p))))) (\<lambda>y1.
      sum_bind (dbl (y1 - f)) (\<lambda>y2.
      sum_bind (dbl (y2 / e)) (\<lambda>yq.
      if a = 0 then Inl ZeroDivisionError else
      sum_bind (dbl (x + fl (- fl (10 powi (- p))))) (\<lambda>x1.
      sum_bind (dbl (x1 - c)) (\<lambda>x2.
      sum_bind (dbl (x2 / a)) (\<lambda>xq.
      Inr (\<lceil>yq\<rceil>, \<lceil>xq\<rceil>))))))))"
  unfolding get_index_def Let_def
  by (simp add: eps_floor(1) [OF assms] eps_ceiling(1) [OF assms]
        ceiling_fl_tenth dbl_one dbl_two dbl_minus_one sum_bind_Inr)

lemma dbl_unit: "\<bar>x\<bar> \<le> 2 \<Longrightarrow> dbl x = Inr (fl x)"
  by (rule dbl_Inr) simp

lemma unit_axis:
  assumes "\<bar>w\<bar> \<le> 3" and "s = 1 \<or> s = - 1"
  shows "dbl (w - 0) = Inr (fl (w - 0))"
    and "dbl (fl (w - 0) / s) = Inr (fl (fl (w - 0) / s))"
    and "\<bar>fl (fl (w - 0) / s) - w / s\<bar> \<le> 1 / 2 ^ 48"
proof -
  have 1: "\<bar>fl (w - 0) - (w - 0)\<bar> \<le> 1 / 2 ^ 49"
    using fl_near [of 1 "w - 0"] assms(1) by simp
  have k: "(1::real) / 2 ^ 49 \<le> 1"
    by simp
  have b: "\<bar>fl (w - 0)\<bar> \<le> 4"
    using 1 k assms(1) by linarith
  then have b': "\<bar>fl (w - 0) / s\<bar> \<le> 4"
    using assms(2) by auto
  have 2: "\<bar>fl (fl (w - 0) / s) - fl (w - 0) / s\<bar> \<le> 1 / 2 ^ 49"
    using fl_near [of 1 "fl (w - 0) / s"] b' by simp
  show "dbl (w - 0) = Inr (fl (w - 0))"
    using assms(1) by (intro dbl_small) simp
  show "dbl (fl (w - 0) / s) = Inr (fl (fl (w - 0) / s))"
    using b' by (rule dbl_small)
  have "\<bar>fl (w - 0) / s - w / s\<bar> \<le> 1 / 2 ^ 49"
    using 1 assms(2) by (auto simp: abs_minus_commute)
  then have "\<bar>fl (fl (w - 0) / s) - w / s\<bar> \<le> 1 / 2 ^ 49 + 1 / 2 ^ 49"
    using 2 by linarith
  also have "\<dots> = 1 / 2 ^ 48" by simp
  finally show "\<bar>fl (fl (w - 0) / s) - w / s\<bar> \<le> 1 / 2 ^ 48" .
qed

text \<open>
  Claim C3 (the window contains the requested box), as stated, is false. The epsilon of
  \<^verbatim>\<open>get_index\<close> is added before the floor of the start corner and subtracted
  before the ceiling of the stop corner, so an edge that lies less than \<open>10\<^sup>-\<^sup>p\<close> short
  of a pixel boundary is moved onto that boundary, inside the box. With unit pixels
  and \<^verbatim>\<open>precision = 6\<close>, the left edge \<^verbatim>\<open>0.9999995\<close> (the double nearest
  to that decimal) gives the start column 1, and the window's bounds begin at \<open>x = 1\<close>,
  to the right of the requested left edge.
\<close>

theorem get_window_clips_box:
  "get_window (fl (9999995 / 10000000)) (- 1) 2 0 (1, 0, 0, 0, - 1, 0) 6 = Inr ((0, 1), (1, 2))
   \<and> window_bounds ((0, 1), (1, 2)) (1, 0, 0, 0, - 1, 0) = Inr (1, - 1, 2, 0)
   \<and> \<not> (1 \<le> fl (9999995 / 10000000))"
proof -
  let ?L = "fl (9999995 / 10000000)"
  let ?ef = "fl (fl (10 powi (- 6)))"
  let ?ec = "fl (- fl (10 powi (- 6)))"
  have E: "(10::real) powi (- 6) = 1 / 1000000"
    by (simp add: power_int_minus)
  have k: "(1::real) / 2 ^ 51 \<le> 1 / 1000000000" "(1::real) / 2 ^ 50 \<le> 1 / 1000000000"
      "(1::real) / 2 ^ 48 \<le> 1 / 1000000000"
    by simp_all
  have "\<bar>?L - 9999995 / 10000000\<bar> \<le> 1 / 2 ^ 51"
    by (rule fl_unit) simp
  then have L: "\<bar>?L - 9999995 / 10000000\<bar> \<le> 1 / 1000000000"
    using k(1) by linarith
  have "\<bar>?ef - 10 powi (- 6)\<bar> \<le> 1 / 2 ^ 50"
    by (rule eps_floor(3)) simp
  then have ef: "\<bar>?ef - 1 / 1000000\<bar> \<le> 1 / 1000000000"
    using k(2) unfolding E by linarith
  have "\<bar>?ec + 10 powi (- 6)\<bar> \<le> 1 / 2 ^ 50"
    by (rule eps_ceiling(2)) simp
  then have ec: "\<bar>?ec + 1 / 1000000\<bar> \<le> 1 / 1000000000"
    using k(2) unfolding E by linarith
  \<comment> \<open>the start corner\<close>
  let ?ys = "fl (0 - ?ef)"
  let ?xs = "fl (?L + ?ef)"
  have ys0: "\<bar>0 - ?ef\<bar> \<le> 2" using ef by linarith
  have xs0: "\<bar>?L + ?ef\<bar> \<le> 2" using L ef by linarith
  have ys: "\<bar>?ys - (0 - ?ef)\<bar> \<le> 1 / 1000000000"
    using fl_unit [OF ys0] k(1) by linarith
  have xs: "\<bar>?xs - (?L + ?ef)\<bar> \<le> 1 / 1000000000"
    using fl_unit [OF xs0] k(1) by linarith
  have ys3: "\<bar>?ys\<bar> \<le> 3" using ys ef by linarith
  have xs3: "\<bar>?xs\<bar> \<le> 3" using xs L ef by linarith
  note Ys = unit_axis [OF ys3, of "- 1"]
  note Xs = unit_axis [OF xs3, of 1]
  have r0b: "0 \<le> fl (fl (?ys - 0) / (- 1))" "fl (fl (?ys - 0) / (- 1)) < 1"
    using Ys(3) ys ef k(3) by linarith+
  have r0: "\<lfloor>fl (fl (?ys - 0) / (- 1))\<rfloor> = 0"
    using r0b by (intro floor_unique) simp_all
  have c0b: "1 \<le> fl (fl (?xs - 0) / 1)" "fl (fl (?xs - 0) / 1) < 2"
    using Xs(3) xs L ef k(3) by linarith+
  have c0: "\<lfloor>fl (fl (?xs - 0) / 1)\<rfloor> = 1"
    using c0b by (intro floor_unique) simp_all
  have start: "get_index ?L 0 (1, 0, 0, 0, - 1, 0) floor 6 = Inr (0, 1)"
    using dbl_unit [OF ys0] dbl_unit [OF xs0] Ys(1,2) Xs(1,2) r0 c0
    by (simp add: get_index_floor sum_bind_Inr)
  \<comment> \<open>the stop corner\<close>
  let ?yt = "fl (- 1 - ?ec)"
  let ?xt = "fl (2 + ?ec)"
  have yt0: "\<bar>- 1 - ?ec\<bar> \<le> 2" using ec by linarith
  have xt0: "\<bar>2 + ?ec\<bar> \<le> 2" using ec by linarith
  have yt: "\<bar>?yt - (- 1 - ?ec)\<bar> \<le> 1 / 1000000000"
    using fl_unit [OF yt0] k(1) by linarith
  have xt: "\<bar>?xt - (2 + ?ec)\<bar> \<le> 1 / 1000000000"
    using fl_unit [OF xt0] k(1) by linarith
  have yt3: "\<bar>?yt\<bar> \<le> 3" using yt ec by linarith
  have xt3: "\<bar>?xt\<bar> \<le> 3" using xt ec by linarith
  note Yt = unit_axis [OF yt3, of "- 1"]
  note Xt = unit_axis [OF xt3, of 1]
  have r1b: "0 < fl (fl (?yt - 0) / (- 1))" "fl (fl (?yt - 0) / (- 1)) \<le> 1"
    using Yt(3) yt ec k(3) by linarith+
  have r1: "\<lceil>fl (fl (?yt - 0) / (- 1))\<rceil> = 1"
    using r1b by (intro ceiling_unique) simp_all
  have c1b: "1 < fl (fl (?xt - 0) / 1)" "fl (fl (?xt - 0) / 1) \<le> 2"
    using Xt(3) xt ec k(3) by linarith+
  have c1: "\<lceil>fl (fl (?xt - 0) / 1)\<rceil> = 2"
    using c1b by (intro ceiling_unique) simp_all
  have stop: "get_index 2 (- 1) (1, 0, 0, 0, - 1, 0) ceiling 6 = Inr (1, 2)"
    using dbl_unit [OF yt0] dbl_unit [OF xt0] Yt(1,2) Xt(1,2) r1 c1
    by (simp add: get_index_ceiling sum_bind_Inr)
  have win: "get_window ?L (- 1) 2 0 (1, 0, 0, 0, - 1, 0) 6 = Inr ((0, 1), (1, 2))"
    using start stop by (simp add: get_window_def)
  have bounds: "window_bounds ((0, 1), (1, 2)) (1, 0, 0, 0, - 1, 0) = Inr (1, - 1, 2, 0)"
    by (simp add: window_bounds_def affine_apply_def sum_bind_Inr
          dbl_zero dbl_one dbl_two dbl_minus_one)
  have "\<not> (1 \<le> ?L)" using L by linarith
  with win bounds show ?thesis by simp
qed

text \<open>
  Claim C3, amended. Take an axis-aligned transform (\<open>b = d = 0\<close>, \<open>a > 0\<close>,
  \<open>e < 0\<close>), a box with \<open>left \<le> right\<close> and \<open>bottom \<le> top\<close> and a precision
  \<open>p \<ge> 0\<close>, and let \<open>B\<close> with \<open>1 \<le> B \<le> 2\<^sup>1\<^sup>0\<^sup>0\<close> bound the magnitudes of the four
  edges, of the two offsets \<open>c\<close> and \<open>f\<close> and of the two pixel sizes, which are
  at least \<open>2\<^sup>-\<^sup>1\<^sup>0\<^sup>0\<close>. Then, in double-precision arithmetic,
  \<^verbatim>\<open>get_window\<close> returns a window and \<^verbatim>\<open>window_bounds\<close> returns bounds
  for it, and these contain the box shrunk by \<open>10\<^sup>-\<^sup>p\<close> and a rounding allowance of
  \<open>B / 2\<^sup>4\<^sup>5\<close> on each side: \<open>x_min \<le> left + 10\<^sup>-\<^sup>p + B / 2\<^sup>4\<^sup>5\<close>,
  \<open>y_min \<le> bottom + 10\<^sup>-\<^sup>p + B / 2\<^sup>4\<^sup>5\<close>, \<open>x_max \<ge> right - 10\<^sup>-\<^sup>p - B / 2\<^sup>4\<^sup>5\<close> and
  \<open>y_max \<ge> top - 10\<^sup>-\<^sup>p - B / 2\<^sup>4\<^sup>5\<close>.
\<close>

theorem get_window_bounds_within_eps:
  fixes B :: real
  assumes "b = 0" and "d = 0" and "0 < a" and "e < 0"
    and "left \<le> right" and "bottom \<le> top'"
    and "0 \<le> precision"
    and "1 \<le> B" and "B \<le> 2 ^ 100"
    and "1 / 2 ^ 100 \<le> a" and "a \<le> B" and "1 / 2 ^ 100 \<le> - e" and "- e \<le> B"
    and "\<bar>c\<bar> \<le> B" and "\<bar>f\<bar> \<le> B"
    and "\<bar>left\<bar> \<le> B" and "\<bar>right\<bar> \<le> B" and "\<bar>bottom\<bar> \<le> B" and "\<bar>top'\<bar> \<le> B"
  shows "\<exists>win x_min y_min x_max y_max.
           get_window left bottom right top' (a, b, c, d, e, f) precision = Inr win
         \<and> window_bounds win (a, b, c, d, e, f) = Inr (x_min, y_min, x_max, y_max)
         \<and> x_min \<le> left + 10 powi (- precision) + B / 2 ^ 45
         \<and> y_min \<le> bottom + 10 powi (- precision) + B / 2 ^ 45
         \<and> right - 10 powi (- precision) - B / 2 ^ 45 \<le> x_max
         \<and> top' - 10 powi (- precision) - B / 2 ^ 45 \<le> y_max"
proof -
  let ?E = "10 powi (- precision) :: real"
  let ?ef = "fl (fl ?E)"
  let ?ec = "fl (- fl ?E)"
  let ?xs = "fl (left + ?ef)"
  let ?ys = "fl (top' - ?ef)"
  let ?xt = "fl (right + ?ec)"
  let ?yt = "fl (bottom - ?ec)"
  let ?c0 = "\<lfloor>fl (fl (?xs - c) / a)\<rfloor>"
  let ?r0 = "\<lfloor>fl (fl (?ys - f) / e)\<rfloor>"
  let ?c1 = "\<lceil>fl (fl (?xt - c) / a)\<rceil>"
  let ?r1 = "\<lceil>fl (fl (?yt - f) / e)\<rceil>"
  let ?X = "\<lambda>n :: int. fl (fl (fl (fl (of_int n) * a)) + c)"
  let ?Y = "\<lambda>n :: int. fl (fl (fl (fl (of_int n) * e)) + f)"
  define u where "u = B / 2 ^ 49"
  have B: "1 \<le> B" "B \<le> 2 ^ 100" by fact+
  have u: "0 \<le> u" "100 * u \<le> B"
    using B(1) by (simp_all add: u_def)
  have st: "\<bar>fl x - x\<bar> \<le> u" if "\<bar>x\<bar> \<le> 8 * B" for x
    using fl_near [OF B(1) that] by (simp add: u_def)
  have big: "8 * B \<le> 2 ^ 1000"
    using B(2) by simp
  have fin: "dbl x = Inr (fl x)" if "\<bar>x\<bar> \<le> 8 * B" for x
    using that big by (intro dbl_Inr) linarith
  have E: "0 < ?E" "?E \<le> 1"
    using pow_ten_bounds [OF assms(7)] by simp_all
  have k: "(1::real) / 2 ^ 50 \<le> u"
    using B(1) by (simp add: u_def)
  have ef: "\<bar>?ef - ?E\<bar> \<le> u"
    using eps_floor(3) [OF assms(7)] k by linarith
  have ec: "\<bar>?ec + ?E\<bar> \<le> u"
    using eps_ceiling(2) [OF assms(7)] k by linarith
  have a0: "a \<noteq> 0" "e \<noteq> 0" using assms(3,4) by simp_all
  have sa: "1 / 2 ^ 100 \<le> \<bar>a\<bar>" "\<bar>a\<bar> \<le> B"
    using assms(3,10,11) by simp_all
  have se: "1 / 2 ^ 100 \<le> \<bar>e\<bar>" "\<bar>e\<bar> \<le> B"
    using assms(4,12,13) by simp_all
  \<comment> \<open>the nudged coordinates\<close>
  have xs0: "\<bar>left + ?ef\<bar> \<le> 8 * B" using assms(16) ef E u B(1) by linarith
  have ys0: "\<bar>top' - ?ef\<bar> \<le> 8 * B" using assms(19) ef E u B(1) by linarith
  have xt0: "\<bar>right + ?ec\<bar> \<le> 8 * B" using assms(17) ec E u B(1) by linarith
  have yt0: "\<bar>bottom - ?ec\<bar> \<le> 8 * B" using assms(18) ec E u B(1) by linarith
  have xs: "\<bar>?xs - (left + ?ef)\<bar> \<le> u" using xs0 by (rule st)
  have ys: "\<bar>?ys - (top' - ?ef)\<bar> \<le> u" using ys0 by (rule st)
  have xt: "\<bar>?xt - (right + ?ec)\<bar> \<le> u" using xt0 by (rule st)
  have yt: "\<bar>?yt - (bottom - ?ec)\<bar> \<le> u" using yt0 by (rule st)
  have xs3: "\<bar>?xs\<bar> \<le> 3 * B" using xs assms(16) ef E u B(1) by linarith
  have ys3: "\<bar>?ys\<bar> \<le> 3 * B" using ys assms(19) ef E u B(1) by linarith
  have xt3: "\<bar>?xt\<bar> \<le> 3 * B" using xt assms(17) ec E u B(1) by linarith
  have yt3: "\<bar>?yt\<bar> \<le> 3 * B" using yt assms(18) ec E u B(1) by linarith
  \<comment> \<open>the four indexes and the way back\<close>
  have n_c0: "\<bar>of_int ?c0 - fl (fl (?xs - c) / a)\<bar> \<le> 1" by linarith
  have n_r0: "\<bar>of_int ?r0 - fl (fl (?ys - f) / e)\<bar> \<le> 1" by linarith
  have n_c1: "\<bar>of_int ?c1 - fl (fl (?xt - c) / a)\<bar> \<le> 1" by linarith
  have n_r1: "\<bar>of_int ?r1 - fl (fl (?yt - f) / e)\<bar> \<le> 1" by linarith
  note C0 = axis_round_trip [OF B xs3 assms(14) sa n_c0]
  note R0 = axis_round_trip [OF B ys3 assms(15) se n_r0]
  note C1 = axis_round_trip [OF B xt3 assms(14) sa n_c1]
  note R1 = axis_round_trip [OF B yt3 assms(15) se n_r1]
  have start: "get_index left top' (a, b, c, d, e, f) floor precision = Inr (?r0, ?c0)"
    using a0 by (simp add: get_index_floor [OF assms(7)] sum_bind_Inr
          fin [OF xs0] fin [OF ys0] C0(1,2) R0(1,2))
  have stop: "get_index right bottom (a, b, c, d, e, f) ceiling precision = Inr (?r1, ?c1)"
    using a0 by (simp add: get_index_ceiling [OF assms(7)] sum_bind_Inr
          fin [OF xt0] fin [OF yt0] C1(1,2) R1(1,2))
  have win: "get_window left bottom right top' (a, b, c, d, e, f) precision
               = Inr ((?r0, ?r1), (?c0, ?c1))"
    by (simp add: get_window_def start stop)
  have lower: "affine_apply (a, b, c, d, e, f) (?c0, ?r1) = Inr (?X ?c0, ?Y ?r1)"
    by (simp add: affine_apply_def assms(1,2) sum_bind_Inr dbl_zero C0(3-6) R1(3-6))
  have upper: "affine_apply (a, b, c, d, e, f) (?c1, ?r0) = Inr (?X ?c1, ?Y ?r0)"
    by (simp add: affine_apply_def assms(1,2) sum_bind_Inr dbl_zero C1(3-6) R0(3-6))
  have bounds: "window_bounds ((?r0, ?r1), (?c0, ?c1)) (a, b, c, d, e, f)
                  = Inr (?X ?c0, ?Y ?r1, ?X ?c1, ?Y ?r0)"
    by (simp add: window_bounds_def lower upper sum_bind_Inr)
  \<comment> \<open>rounding down moves towards the origin of a positive axis, away on a negative one\<close>
  have "of_int ?c0 * a \<le> fl (fl (?xs - c) / a) * a"
    using assms(3) by (intro mult_right_mono) simp_all
  then have x_min: "?X ?c0 \<le> ?xs + 6 * (B / 2 ^ 49)" by (rule C0(7))
  have "fl (fl (?xt - c) / a) * a \<le> of_int ?c1 * a"
    using assms(3) by (intro mult_right_mono) simp_all
  then have x_max: "?xt - 6 * (B / 2 ^ 49) \<le> ?X ?c1" by (rule C1(8))
  have "fl (fl (?ys - f) / e) * e \<le> of_int ?r0 * e"
    using assms(4) by (intro mult_right_mono_neg) simp_all
  then have y_max: "?ys - 6 * (B / 2 ^ 49) \<le> ?Y ?r0" by (rule R0(8))
  have "of_int ?r1 * e \<le> fl (fl (?yt - f) / e) * e"
    using assms(4) by (intro mult_right_mono_neg) simp_all
  then have y_min: "?Y ?r1 \<le> ?yt + 6 * (B / 2 ^ 49)" by (rule R1(7))
  have slack: "8 * (B / 2 ^ 49) \<le> B / 2 ^ 45"
    using B(1) by simp
  have "?X ?c0 \<le> left + ?E + B / 2 ^ 45"
    using x_min xs ef slack unfolding u_def by linarith
  moreover have "?Y ?r1 \<le> bottom + ?E + B / 2 ^ 45"
    using y_min yt ec slack unfolding u_def by linarith
  moreover have "right - ?E - B / 2 ^ 45 \<le> ?X ?c1"
    using x_max xt ec slack unfolding u_def by linarith
  moreover have "top' - ?E - B / 2 ^ 45 \<le> ?Y ?r0"
    using y_max ys ef slack unfolding u_def by linarith
  ultimately show ?thesis
    using win bounds by blast
qed

theorem get_window_bounds_within_eps_witness:
  "\<exists>win x_min y_min x_max y_max.
     get_window (1 / 2) (- 3 / 2) (3 / 2) (- 1 / 2) (1, 0, 0, 0, - 1, 0) 6 = Inr win
   \<and> window_bounds win (1, 0, 0, 0, - 1, 0) = Inr (x_min, y_min, x_max, y_max)
   \<and> x_min \<le> 1 / 2 + 10 powi (- 6) + 2 / 2 ^ 45
   \<and> y_min \<le> - 3 / 2 + 10 powi (- 6) + 2 / 2 ^ 45
   \<and> 3 / 2 - 10 powi (- 6) - 2 / 2 ^ 45 \<le> x_max
   \<and> - 1 / 2 - 10 powi (- 6) - 2 / 2 ^ 45 \<le> y_max"
  using get_window_bounds_within_eps
    [where a = 1 and b = 0 and c = 0 and d = 0 and e = "- 1" and f = 0
       and left = "1 / 2" and bottom = "- 3 / 2" and right = "3 / 2" and top' = "- 1 / 2"
       and precision = 6 and B = 2]
  by simp

section \<open>Properties of the CRS parameters\<close>

text \<open>
  Claim C7 (CRS round trip). \<^verbatim>\<open>write_crs\<close> renders the mapping
  \<^verbatim>\<open>{'proj': 'longlat', 'datum': 'WGS84', 'no_defs': True}\<close> as
  \<^verbatim>\<open>+proj=longlat +datum=WGS84 +no_defs\<close>: the parameter that is
  \<^verbatim>\<open>True\<close> as \<^verbatim>\<open>+key\<close>, the others as \<^verbatim>\<open>+key=value\<close>, joined by
  spaces. The parser of \<^verbatim>\<open>read_crs\<close> turns that string back into the same
  mapping: neither \<^verbatim>\<open>longlat\<close> nor \<^verbatim>\<open>WGS84\<close> reads as a number, and the
  bare token becomes \<^verbatim>\<open>True\<close>.
\<close>

theorem crs_round_trip:
  "write_crs_proj fmt [(''proj'', PStr ''longlat''), (''datum'', PStr ''WGS84''), (''no_defs'', PBool True)]
     = ''+proj=longlat +datum=WGS84 +no_defs''
   \<and> parse_proj ''+proj=longlat +datum=WGS84 +no_defs''
     = Inr [(''proj'', PStr ''longlat''), (''datum'', PStr ''WGS84''), (''no_defs'', PBool True)]"
  by (simp add: write_crs_proj_def parse_proj_def is_space_def coerce_value_def py_float_def
        read_decimal_def is_digit_def lower_def py_str_def)

section \<open>Properties of the dataset life cycle\<close>

lemma st_bind_Inr: "st_bind (Inr x, s) f = f x s"
  by (simp add: st_bind_def)

lemma st_bind_Inl: "st_bind (Inl e, s) f = (Inl e, s)"
  by (simp add: st_bind_def)

lemma st_bind_pair: "st_bind (r, s) f = (case r of Inl e \<Rightarrow> (Inl e, s) | Inr x \<Rightarrow> f x s)"
  by (simp add: st_bind_def split: sum.splits)

lemma err_bind_Inr: "err_bind (Inr x) s f = f x"
  by (simp add: err_bind_def)

lemma err_bind_Inl: "err_bind (Inl e) s f = (Inl e, s)"
  by (simp add: err_bind_def)

lemma map_range_upto_nth:
  "map (\<lambda>i. g (xs ! nat i)) (range_upto (int (length xs))) = map g xs"
proof (rule nth_equalityI)
  show "length (map (\<lambda>i. g (xs ! nat i)) (range_upto (int (length xs)))) = length (map g xs)"
    by (simp add: range_upto_def)
next
  fix k
  assume "k < length (map (\<lambda>i. g (xs ! nat i)) (range_upto (int (length xs))))"
  then have k: "k < length xs" by (simp add: range_upto_def)
  then show "map (\<lambda>i. g (xs ! nat i)) (range_upto (int (length xs))) ! k = map g xs ! k"
    by (simp add: range_upto_def)
qed

lemma set_range_upto: "i \<in> set (range_upto n) \<longleftrightarrow> 0 \<le> i \<and> i < n"
  by (auto simp: range_upto_def)

lemma band_in_range:
  assumes "d_hds self = Some ds" and "0 \<le> i" and "i < int (length (ds_bands ds))"
  shows "DatasetBase_band self (i + 1) = Inr (ds_bands ds ! nat i)"
  using assms by (simp add: DatasetBase_band_def get_raster_band_def)

lemma dtypes_loop_opened:
  assumes "d_hds self = Some ds"
    and "\<And>i. i \<in> set idxs \<Longrightarrow> 0 \<le> i \<and> i < int (length (ds_bands ds))"
  shows "dtypes_loop self idxs =
           (Inr (), self\<lparr>d_dtypes := d_dtypes self
                       @ map (\<lambda>i. dtype_fwd (band_type (ds_bands ds ! nat i))) idxs\<rparr>)"
  using assms
proof (induction idxs arbitrary: self)
  case Nil
  then show ?case by simp
next
  case (Cons i rest)
  have b: "DatasetBase_band self (i + 1) = Inr (ds_bands ds ! nat i)"
    using Cons.prems by (intro band_in_range) auto
  show ?case
    using Cons.prems by (simp add: b err_bind_def Cons.IH)
qed

lemma block_shapes_loop_opened:
  assumes "d_hds self = Some ds" and "d_block_shapes self = Some acc"
    and "\<And>i. i \<in> set idxs \<Longrightarrow> 0 \<le> i \<and> i < int (length (ds_bands ds))"
  shows "block_shapes_loop self idxs =
           (Inr (), self\<lparr>d_block_shapes := Some (acc
                       @ map (\<lambda>i. (snd (band_block (ds_bands ds ! nat i)),
                                    fst (band_block (ds_bands ds ! nat i)))) idxs)\<rparr>)"
  using assms
proof (induction idxs arbitrary: self acc)
  case Nil
  then show ?case by simp
next
  case (Cons i rest)
  have b: "DatasetBase_band self (i + 1) = Inr (ds_bands ds ! nat i)"
    using Cons.prems by (intro band_in_range) auto
  show ?case
    using Cons.prems by (simp add: b err_bind_def Cons.IH)
qed

lemma nodatavals_loop_frame:
  assumes "nodatavals_loop self idxs = (Inr u, self')"
  shows "\<exists>vals. self' = self\<lparr>d_nodatavals := d_nodatavals self @ vals\<rparr>
           \<and> length vals = length idxs"
  using assms
proof (induction idxs arbitrary: self)
  case Nil
  then show ?case by simp
next
  case (Cons i rest)
  from Cons.prems obtain band val where
    step: "nodatavals_loop (self\<lparr>d_nodatavals := d_nodatavals self @ [val]\<rparr>) rest = (Inr u, self')"
    by (auto simp: err_bind_def split: sum.splits)
  from Cons.IH [OF step] obtain vals where
    "self' = self\<lparr>d_nodatavals := d_nodatavals self @ [val] @ vals\<rparr>" "length vals = length rest"
    by auto
  then show ?case
    by (intro exI [of _ "val # vals"]) simp
qed


lemma count_opened:
  assumes "d_hds self = Some ds" and "d_count self = int (length (ds_bands ds))"
  shows "DatasetBase_count self = (Inr (d_count self), self)"
proof (cases "d_count self = 0")
  case True
  then have "self\<lparr>d_count := int (length (ds_bands ds))\<rparr> = self"
    using assms(2) by simp
  then show ?thesis
    using True assms by (simp add: DatasetBase_count_def Let_def)
next
  case False
  then show ?thesis by (simp add: DatasetBase_count_def)
qed

lemma dtypes_opened:
  assumes "d_hds self = Some ds" and "d_count self = int (length (ds_bands ds))"
    and "d_dtypes self = []"
  shows "DatasetBase_dtypes self =
           (Inr (map (\<lambda>b. dtype_fwd (band_type b)) (ds_bands ds)),
            self\<lparr>d_dtypes := map (\<lambda>b. dtype_fwd (band_type b)) (ds_bands ds)\<rparr>)"
proof -
  have "dtypes_loop self (range_upto (d_count self)) =
          (Inr (), self\<lparr>d_dtypes := d_dtypes self
              @ map (\<lambda>i. dtype_fwd (band_type (ds_bands ds ! nat i))) (range_upto (d_count self))\<rparr>)"
    using assms(1,2) by (intro dtypes_loop_opened) (simp_all add: set_range_upto)
  then show ?thesis
    using assms(2,3)
    by (simp add: DatasetBase_dtypes_def st_bind_def
          map_range_upto_nth [where g = "\<lambda>b. dtype_fwd (band_type b)"])
qed

lemma block_shapes_opened:
  assumes "d_hds self = Some ds" and "d_count self = int (length (ds_bands ds))"
    and "d_block_shapes self = None"
  shows "DatasetBase_block_shapes self =
           (Inr (map (\<lambda>b. (snd (band_block b), fst (band_block b))) (ds_bands ds)),
            self\<lparr>d_block_shapes :=
                   Some (map (\<lambda>b. (snd (band_block b), fst (band_block b))) (ds_bands ds))\<rparr>)"
proof -
  have "block_shapes_loop (self\<lparr>d_block_shapes := Some []\<rparr>) (range_upto (d_count self)) =
          (Inr (), self\<lparr>d_block_shapes := Some []\<rparr>\<lparr>d_block_shapes := Some ([]
              @ map (\<lambda>i. (snd (band_block (ds_bands ds ! nat i)),
                           fst (band_block (ds_bands ds ! nat i)))) (range_upto (d_count self)))\<rparr>)"
    using assms(1,2) by (intro block_shapes_loop_opened) (simp_all add: set_range_upto)
  then show ?thesis
    using assms(2,3)
    by (simp add: DatasetBase_block_shapes_def st_bind_def
          map_range_upto_nth [where g = "\<lambda>b. (snd (band_block b), fst (band_block b))"])
qed

lemma block_shapes_cached:
  assumes "d_block_shapes self = Some shapes"
  shows "DatasetBase_block_shapes self = (Inr shapes, self)"
  using assms by (simp add: DatasetBase_block_shapes_def)

lemma get_nodatavals_frame:
  assumes "DatasetBase_get_nodatavals self = (Inr vals, self')" and "d_nodatavals self = []"
  shows "self' = self\<lparr>d_nodatavals := vals\<rparr> \<and> length vals = nat (d_count self)"
proof -
  obtain r s1 where l: "nodatavals_loop self (range_upto (d_count self)) = (r, s1)"
    by (cases "nodatavals_loop self (range_upto (d_count self))")
  have g: "DatasetBase_get_nodatavals self =
             (case r of Inl e \<Rightarrow> (Inl e, s1) | Inr x \<Rightarrow> (Inr (d_nodatavals s1), s1))"
    using assms(2) by (simp add: DatasetBase_get_nodatavals_def st_bind_def l split: sum.splits)
  show ?thesis
  proof (cases r)
    case (Inl e)
    then show ?thesis using g assms(1) by simp
  next
    case (Inr u)
    then have e: "vals = d_nodatavals s1" "self' = s1"
      using g assms(1) by simp_all
    from nodatavals_loop_frame [OF l [unfolded Inr]] obtain vs where
      "s1 = self\<lparr>d_nodatavals := d_nodatavals self @ vs\<rparr>"
      "length vs = length (range_upto (d_count self))" by auto
    then show ?thesis
      using e assms(2) by (simp add: range_upto_def)
  qed
qed

lemma nodata_frame:
  assumes "d_hds self = Some ds" and "d_count self = int (length (ds_bands ds))"
    and "d_nodatavals self = []"
    and "DatasetBase_nodata self = (Inr v, self')"
  shows "\<exists>vals. self' = self\<lparr>d_nodatavals := vals\<rparr> \<and> length vals = length (ds_bands ds)"
proof (cases "d_count self = 0")
  case True
  then have "self' = self"
    using assms(4) count_opened [OF assms(1,2)]
    by (simp add: DatasetBase_nodata_def st_bind_def)
  moreover have "self\<lparr>d_nodatavals := []\<rparr> = self"
    using assms(3) by simp
  ultimately show ?thesis
    using True assms(2) by (intro exI [of _ "[]"]) simp
next
  case False
  obtain r s1 where g: "DatasetBase_get_nodatavals self = (r, s1)"
    by (cases "DatasetBase_get_nodatavals self")
  have n: "DatasetBase_nodata self =
             (case r of Inl e \<Rightarrow> (Inl e, s1)
              | Inr vals \<Rightarrow> err_bind (py_index vals 0) s1 (\<lambda>val. (Inr val, s1)))"
    using False count_opened [OF assms(1,2)]
    by (simp add: DatasetBase_nodata_def st_bind_def g split: sum.splits)
  show ?thesis
  proof (cases r)
    case (Inl e)
    then show ?thesis using n assms(4) by simp
  next
    case (Inr vals)
    then have "self' = s1"
      using n assms(4) by (simp add: err_bind_def split: sum.splits)
    moreover from get_nodatavals_frame [OF g [unfolded Inr] assms(3)]
    have "s1 = self\<lparr>d_nodatavals := vals\<rparr>" "length vals = nat (d_count self)" by simp_all
    ultimately show ?thesis
      using assms(2) by (intro exI [of _ vals]) simp
  qed
qed



lemma get_crs_cached:
  assumes "d_crs self = Some c"
  shows "DatasetBase_get_crs self = (Inr (Some c), self)"
  using assms by (simp add: DatasetBase_get_crs_def)

lemma affine_cached:
  assumes "d_transform self = Some t"
  shows "DatasetBase_affine self =
           (case from_gdal (Some t) of Inl e \<Rightarrow> (Inl e, self) | Inr a \<Rightarrow> (Inr a, self))"
  using assms
  by (simp add: DatasetBase_affine_def DatasetBase_get_transform_def st_bind_Inr err_bind_def)

lemma meta_frame:
  assumes "d_hds self = Some ds" and "d_count self = int (length (ds_bands ds))"
    and "d_dtypes self = []" and "d_nodatavals self = []"
    and "d_crs self = Some c" and "d_transform self = Some t"
    and "DatasetBase_meta self = (Inr m, self')"
  shows "\<exists>vals. self' = self\<lparr>d_dtypes := map (\<lambda>b. dtype_fwd (band_type b)) (ds_bands ds),
                            d_nodatavals := vals, d_read := True\<rparr>
               \<and> length vals = length (ds_bands ds)"
proof -
  define dts where "dts = map (\<lambda>b. dtype_fwd (band_type b)) (ds_bands ds)"
  define s1 where "s1 = self\<lparr>d_dtypes := dts\<rparr>"
  define n where "n = d_count self"
  have c0: "DatasetBase_count self = (Inr n, self)"
    unfolding n_def using assms(1,2) by (rule count_opened)
  have d1: "\<exists>dv. (if n = 0 then (Inr (Inl ''float_''), self)
                 else st_bind (DatasetBase_dtypes self) (\<lambda>dts self.
                      err_bind (py_index dts 0) self (\<lambda>dt. (Inr (Inr dt), self))))
               = (Inr dv, s1)"
  proof (cases "n = 0")
    case True
    then have "dts = []" using assms(2) by (simp add: dts_def n_def)
    then have "s1 = self" using assms(3) by (simp add: s1_def)
    then show ?thesis using True by simp
  next
    case False
    then have "0 < length dts" using assms(2) by (simp add: dts_def n_def)
    then have "py_index dts 0 = Inr (dts ! 0)" by (simp add: py_index_def)
    then show ?thesis
      using False dtypes_opened [OF assms(1,2,3)]
      by (simp add: st_bind_Inr err_bind_Inr dts_def s1_def)
  qed
  then obtain dv where d1': "(if n = 0 then (Inr (Inl ''float_''), self)
                 else st_bind (DatasetBase_dtypes self) (\<lambda>dts self.
                      err_bind (py_index dts 0) self (\<lambda>dt. (Inr (Inr dt), self))))
               = (Inr dv, s1)" by blast
  have s1: "d_hds s1 = Some ds" "d_count s1 = int (length (ds_bands ds))" "d_nodatavals s1 = []"
    "d_crs s1 = Some c" "d_transform s1 = Some t"
    using assms by (simp_all add: s1_def)
  obtain r2 s2 where nd: "DatasetBase_nodata s1 = (r2, s2)"
    by (cases "DatasetBase_nodata s1")
  have m1: "DatasetBase_meta self =
      (case r2 of Inl e \<Rightarrow> (Inl e, s2)
       | Inr nodata \<Rightarrow>
           st_bind (DatasetBase_count s2) (\<lambda>cnt self.
           st_bind (DatasetBase_get_crs self) (\<lambda>crs self.
           st_bind (DatasetBase_affine self) (\<lambda>t1 self.
           st_bind (DatasetBase_affine self) (\<lambda>t2 self.
           (Inr \<lparr>m_driver = d_driver self, m_dtype = dv, m_nodata = nodata,
                 m_width = d_width self, m_height = d_height self, m_count = cnt, m_crs = crs,
                 m_transform = to_gdal t1, m_affine = t2\<rparr>,
            self\<lparr>d_read := True\<rparr>))))))"
    unfolding DatasetBase_meta_def c0 st_bind_Inr d1' nd st_bind_pair [of r2] ..
  show ?thesis
  proof (cases r2)
    case (Inl e)
    then show ?thesis using m1 assms(7) by simp
  next
    case (Inr nodata)
    from nodata_frame [OF s1(1,2,3) nd [unfolded Inr]] obtain vals where
      s2: "s2 = s1\<lparr>d_nodatavals := vals\<rparr>" and len: "length vals = length (ds_bands ds)"
      by blast
    have s2f: "d_hds s2 = Some ds" "d_count s2 = int (length (ds_bands ds))"
      "d_crs s2 = Some c" "d_transform s2 = Some t"
      using s1 by (simp_all add: s2)
    have "DatasetBase_meta self =
            (case from_gdal (Some t) of
               Inl e \<Rightarrow> (Inl e, s2)
             | Inr a \<Rightarrow>
                 (Inr \<lparr>m_driver = d_driver s2, m_dtype = dv, m_nodata = nodata,
                       m_width = d_width s2, m_height = d_height s2, m_count = d_count s2,
                       m_crs = Some c, m_transform = to_gdal a, m_affine = a\<rparr>,
                  s2\<lparr>d_read := True\<rparr>))"
      unfolding m1 Inr
      by (simp add: count_opened [OF s2f(1,2)] get_crs_cached [OF s2f(3)]
            affine_cached [OF s2f(4)] st_bind_Inr st_bind_Inl split: sum.splits)
    then have "self' = s2\<lparr>d_read := True\<rparr>"
      using assms(7) by (simp split: sum.splits)
    then show ?thesis
      using len by (intro exI [of _ vals]) (simp add: s2 s1_def dts_def)
  qed
qed



lemma st_bind_weak_cong: "m = m' \<Longrightarrow> st_bind m f = st_bind m' f"
  by simp

lemma err_bind_weak_cong: "r = r' \<Longrightarrow> err_bind r s f = err_bind r' s f"
  by simp

lemmas bind_simps = st_bind_Inr st_bind_Inl err_bind_Inr err_bind_Inl

lemma dataset_start_steps:
  assumes "DatasetBase_start gdal_open (DatasetBase_init path options) = (Inr (), st)"
  shows "\<exists>ds c m sd.
           gdal_open path = Some ds
         \<and> DatasetBase_meta
             ((DatasetBase_init path options)
                \<lparr>d_hds := Some ds, d_driver := Some (ds_driver ds),
                 d_count := int (length (ds_bands ds)), d_width := Some (ds_xsize ds),
                 d_height := Some (ds_ysize ds), d_shape := Some (ds_ysize ds, ds_xsize ds),
                 d_transform := Some (ds_geotransform ds), d_crs := Some c\<rparr>) = (Inr m, sd)
         \<and> st = sd\<lparr>d_closed := False\<rparr>"
proof (cases "gdal_open path")
  case None
  then show ?thesis
    using assms by (simp add: DatasetBase_start_def DatasetBase_init_def)
next
  case (Some ds)
  define sa where "sa = (DatasetBase_init path options)
                \<lparr>d_hds := Some ds, d_driver := Some (ds_driver ds),
                 d_count := int (length (ds_bands ds)), d_width := Some (ds_xsize ds),
                 d_height := Some (ds_ysize ds), d_shape := Some (ds_ysize ds, ds_xsize ds),
                 d_transform := Some (ds_geotransform ds)\<rparr>"
  have start: "DatasetBase_start gdal_open (DatasetBase_init path options) =
          err_bind (DatasetBase_read_crs sa) sa (\<lambda>c.
            st_bind (DatasetBase_meta (sa\<lparr>d_crs := Some c\<rparr>)) (\<lambda>_ self.
              (Inr (), self\<lparr>d_closed := False\<rparr>)))"
    using Some
    by (simp add: DatasetBase_start_def DatasetBase_init_def DatasetBase_read_transform_def
          bind_simps sa_def Let_def)
  show ?thesis
  proof (cases "DatasetBase_read_crs sa")
    case (Inl e)
    then show ?thesis using assms start by (simp add: bind_simps)
  next
    case (Inr c)
    obtain r sd where meta: "DatasetBase_meta (sa\<lparr>d_crs := Some c\<rparr>) = (r, sd)"
      by (cases "DatasetBase_meta (sa\<lparr>d_crs := Some c\<rparr>)")
    show ?thesis
    proof (cases r)
      case (Inl e)
      then show ?thesis using assms start Inr meta by (simp add: bind_simps)
    next
      case r: (Inr m)
      then have "st = sd\<lparr>d_closed := False\<rparr>"
        using assms start Inr meta by (simp add: bind_simps)
      then show ?thesis
        using Some meta r unfolding sa_def by (intro exI [of _ ds] exI [of _ c] exI [of _ m] exI [of _ sd]) simp
    qed
  qed
qed


lemma map_range_upto_bands:
  "map (\<lambda>i. g (get_raster_band ds (i + 1))) (range_upto (int (length (ds_bands ds))))
     = map (\<lambda>b. g (Some b)) (ds_bands ds)"
proof -
  have "map (\<lambda>i. g (get_raster_band ds (i + 1))) (range_upto (int (length (ds_bands ds))))
          = map (\<lambda>i. g (Some (ds_bands ds ! nat i))) (range_upto (int (length (ds_bands ds))))"
    by (rule map_cong) (simp_all add: set_range_upto get_raster_band_def)
  then show ?thesis
    by (simp add: map_range_upto_nth [where g = "\<lambda>b. g (Some b)"])
qed

lemma reader_start_steps:
  assumes "RasterReader_start gdal_open (RasterReader_init path) = (Inr (), rst)"
  shows "\<exists>ds c w.
           gdal_open path = Some ds
         \<and> rst = (RasterReader_init path)
                \<lparr>r_hds := Some ds, r_driver := Some (ds_driver ds),
                 r_count := int (length (ds_bands ds)), r_width := Some (ds_xsize ds),
                 r_height := Some (ds_ysize ds), r_shape := Some (ds_ysize ds, ds_xsize ds),
                 r_transform := Some (ds_geotransform ds), r_crs := Some c,
                 r_crs_wkt := Some w, r_closed := False\<rparr>"
proof (cases "gdal_open path")
  case None
  then show ?thesis
    using assms by (simp add: RasterReader_start_def RasterReader_init_def)
next
  case (Some ds)
  define sa where "sa = (RasterReader_init path)
                \<lparr>r_hds := Some ds, r_driver := Some (ds_driver ds),
                 r_count := int (length (ds_bands ds)), r_width := Some (ds_xsize ds),
                 r_height := Some (ds_ysize ds), r_shape := Some (ds_ysize ds, ds_xsize ds),
                 r_transform := Some (ds_geotransform ds)\<rparr>"
  have start: "RasterReader_start gdal_open (RasterReader_init path) =
          err_bind (RasterReader_read_crs sa) sa (\<lambda>c.
            err_bind (RasterReader_read_crs_wkt (sa\<lparr>r_crs := Some c\<rparr>)) (sa\<lparr>r_crs := Some c\<rparr>)
              (\<lambda>w. (Inr (), sa\<lparr>r_crs := Some c, r_crs_wkt := Some w, r_closed := False\<rparr>)))"
    using Some
    by (simp add: RasterReader_start_def RasterReader_init_def RasterReader_read_transform_def
          bind_simps sa_def Let_def)
  show ?thesis
  proof (cases "RasterReader_read_crs sa")
    case (Inl e)
    then show ?thesis using assms start by (simp add: bind_simps)
  next
    case c: (Inr c)
    show ?thesis
    proof (cases "RasterReader_read_crs_wkt (sa\<lparr>r_crs := Some c\<rparr>)")
      case (Inl e)
      then show ?thesis using assms start c by (simp add: bind_simps)
    next
      case (Inr w)
      then have "rst = sa\<lparr>r_crs := Some c, r_crs_wkt := Some w, r_closed := False\<rparr>"
        using assms start c by (simp add: bind_simps)
      then show ?thesis
        using Some unfolding sa_def by (intro exI [of _ ds] exI [of _ c] exI [of _ w]) simp
    qed
  qed
qed

lemma example_parse:
  "parse_proj ''+proj=longlat +datum=WGS84 +no_defs''
     = Inr [(''proj'', PStr ''longlat''), (''datum'', PStr ''WGS84''), (''no_defs'', PBool True)]"
  by code_simp

lemma example_reader_start:
  "RasterReader_start example_open (RasterReader_init ''example.tif'') = (Inr (), example_reader)"
  by (simp add: RasterReader_start_def RasterReader_init_def RasterReader_read_transform_def
        RasterReader_read_crs_def RasterReader_read_crs_wkt_def bind_simps example_open_def
        example_ds_def example_reader_def example_parse
      cong: st_bind_weak_cong err_bind_weak_cong)

lemma example_dataset_start:
  "DatasetBase_start example_open (DatasetBase_init ''example.tif'' None) = (Inr (), example_dataset)"
  by (simp add: DatasetBase_start_def DatasetBase_read_transform_def
        DatasetBase_read_crs_def DatasetBase_meta_def DatasetBase_count_def DatasetBase_dtypes_def
        DatasetBase_nodata_def DatasetBase_get_nodatavals_def DatasetBase_get_crs_def
        DatasetBase_affine_def DatasetBase_get_transform_def DatasetBase_band_def
        get_raster_band_def nodata_of_band_def from_gdal_def to_gdal_def
        dtype_fwd_def py_index_def range_upto_def bind_simps DatasetBase_init_def
        example_open_def example_ds_def example_dataset_def example_parse
      cong: st_bind_weak_cong err_bind_weak_cong)

text \<open>
  Claim C4 (what \<^verbatim>\<open>start\<close> populates), as stated, is false. Both
  \<^verbatim>\<open>start\<close> methods assign \<^verbatim>\<open>_transform\<close> and \<^verbatim>\<open>_crs\<close>
  themselves, from \<^verbatim>\<open>read_transform()\<close> and \<^verbatim>\<open>read_crs()\<close>, and
  \<^verbatim>\<open>DatasetBase.start\<close> then touches \<^verbatim>\<open>meta\<close>, which reads the element
  types and the nodata values of a dataset that has bands. On the example raster all
  of these are cached when \<^verbatim>\<open>start\<close> returns, before any property is read.
\<close>

theorem start_reads_transform_and_crs:
  "DatasetBase_start example_open (DatasetBase_init ''example.tif'' None) = (Inr (), example_dataset)
   \<and> d_transform example_dataset = Some [0, 1, 0, 2, 0, - 1]
   \<and> d_crs example_dataset
       = Some [(''proj'', PStr ''longlat''), (''datum'', PStr ''WGS84''), (''no_defs'', PBool True)]
   \<and> d_dtypes example_dataset = [Ubyte]
   \<and> d_nodatavals example_dataset = [None]
   \<and> RasterReader_start example_open (RasterReader_init ''example.tif'') = (Inr (), example_reader)
   \<and> r_transform example_reader = Some [0, 1, 0, 2, 0, - 1]
   \<and> r_crs example_reader
       = Some [(''proj'', PStr ''longlat''), (''datum'', PStr ''WGS84''), (''no_defs'', PBool True)]"
proof -
  have "DatasetBase_start example_open (DatasetBase_init ''example.tif'' None) = (Inr (), example_dataset)"
    by (rule example_dataset_start)
  moreover have "RasterReader_start example_open (RasterReader_init ''example.tif'') = (Inr (), example_reader)"
    by (rule example_reader_start)
  ultimately show ?thesis
    by (simp add: example_dataset_def example_reader_def)
qed

text \<open>
  Claim C4, amended. After \<^verbatim>\<open>start\<close> succeeds on a read-mode dataset, the
  handle, width, height, driver name and band count are populated, and so are the
  transform and the CRS, which \<^verbatim>\<open>start\<close> reads itself. The block shapes are
  not populated by \<^verbatim>\<open>start\<close>: they stay uncached until the first access of
  \<^verbatim>\<open>block_shapes\<close>, which computes them from the bands and caches them, so that
  a later access answers from the cache even when the dataset has been closed (for a
  \<^verbatim>\<open>RasterReader\<close>, whose cache is tested for emptiness, when there is a band).
  After \<^verbatim>\<open>RasterReader.start\<close> the element types and nodata values are uncached
  as well; after \<^verbatim>\<open>DatasetBase.start\<close> they hold one entry for each band.
\<close>

theorem start_populates:
  "(DatasetBase_start gdal_open (DatasetBase_init path options) = (Inr (), st) \<longrightarrow>
      (\<exists>ds c. gdal_open path = Some ds \<and> d_hds st = Some ds \<and> \<not> d_closed st
         \<and> d_width st = Some (ds_xsize ds) \<and> d_height st = Some (ds_ysize ds)
         \<and> d_driver st = Some (ds_driver ds) \<and> d_count st = int (length (ds_bands ds))
         \<and> d_transform st = Some (ds_geotransform ds) \<and> d_crs st = Some c
         \<and> d_dtypes st = map (\<lambda>b. dtype_fwd (band_type b)) (ds_bands ds)
         \<and> length (d_nodatavals st) = length (ds_bands ds)
         \<and> d_block_shapes st = None
         \<and> (let shapes = map (\<lambda>b. (snd (band_block b), fst (band_block b))) (ds_bands ds);
                 st' = st\<lparr>d_block_shapes := Some shapes\<rparr>
             in DatasetBase_block_shapes st = (Inr shapes, st')
              \<and> DatasetBase_block_shapes (DatasetBase_close st')
                    = (Inr shapes, DatasetBase_close st'))))
   \<and> (RasterReader_start gdal_open (RasterReader_init path) = (Inr (), rst) \<longrightarrow>
      (\<exists>ds c. gdal_open path = Some ds \<and> r_hds rst = Some ds \<and> \<not> r_closed rst
         \<and> r_width rst = Some (ds_xsize ds) \<and> r_height rst = Some (ds_ysize ds)
         \<and> r_driver rst = Some (ds_driver ds) \<and> r_count rst = int (length (ds_bands ds))
         \<and> r_transform rst = Some (ds_geotransform ds) \<and> r_crs rst = Some c
         \<and> r_dtypes rst = [] \<and> r_nodatavals rst = [] \<and> r_block_shapes rst = []
         \<and> (let shapes = map (\<lambda>b. (snd (band_block b), fst (band_block b))) (ds_bands ds);
                 rst' = rst\<lparr>r_block_shapes := shapes\<rparr>
             in RasterReader_block_shapes rst = (Inr shapes, rst')
              \<and> (shapes = [] \<or> RasterReader_block_shapes (RasterReader_close rst')
                    = (Inr shapes, RasterReader_close rst')))))"
proof (intro conjI impI)
  assume a: "DatasetBase_start gdal_open (DatasetBase_init path options) = (Inr (), st)"
  from dataset_start_steps [OF a] obtain ds c m sd where
    o: "gdal_open path = Some ds"
    and meta: "DatasetBase_meta
             ((DatasetBase_init path options)
                \<lparr>d_hds := Some ds, d_driver := Some (ds_driver ds),
                 d_count := int (length (ds_bands ds)), d_width := Some (ds_xsize ds),
                 d_height := Some (ds_ysize ds), d_shape := Some (ds_ysize ds, ds_xsize ds),
                 d_transform := Some (ds_geotransform ds), d_crs := Some c\<rparr>) = (Inr m, sd)"
    and st: "st = sd\<lparr>d_closed := False\<rparr>"
    by blast
  from meta_frame [OF _ _ _ _ _ _ meta, of ds c "ds_geotransform ds"] obtain vals where
    sd: "sd = (DatasetBase_init path options)
                \<lparr>d_hds := Some ds, d_driver := Some (ds_driver ds),
                 d_count := int (length (ds_bands ds)), d_width := Some (ds_xsize ds),
                 d_height := Some (ds_ysize ds), d_shape := Some (ds_ysize ds, ds_xsize ds),
                 d_transform := Some (ds_geotransform ds), d_crs := Some c\<rparr>
                \<lparr>d_dtypes := map (\<lambda>b. dtype_fwd (band_type b)) (ds_bands ds),
                 d_nodatavals := vals, d_read := True\<rparr>"
    and len: "length vals = length (ds_bands ds)"
    by (auto simp: DatasetBase_init_def)
  define shapes where "shapes = map (\<lambda>b. (snd (band_block b), fst (band_block b))) (ds_bands ds)"
  have f: "d_hds st = Some ds" "d_count st = int (length (ds_bands ds))" "d_block_shapes st = None"
    by (simp_all add: st sd DatasetBase_init_def)
  have first: "DatasetBase_block_shapes st = (Inr shapes, st\<lparr>d_block_shapes := Some shapes\<rparr>)"
    unfolding shapes_def using f by (rule block_shapes_opened)
  have again: "DatasetBase_block_shapes (DatasetBase_close (st\<lparr>d_block_shapes := Some shapes\<rparr>))
                 = (Inr shapes, DatasetBase_close (st\<lparr>d_block_shapes := Some shapes\<rparr>))"
    by (rule block_shapes_cached) (simp add: DatasetBase_close_def DatasetBase_stop_def)
  show "\<exists>ds c. gdal_open path = Some ds \<and> d_hds st = Some ds \<and> \<not> d_closed st
         \<and> d_width st = Some (ds_xsize ds) \<and> d_height st = Some (ds_ysize ds)
         \<and> d_driver st = Some (ds_driver ds) \<and> d_count st = int (length (ds_bands ds))
         \<and> d_transform st = Some (ds_geotransform ds) \<and> d_crs st = Some c
         \<and> d_dtypes st = map (\<lambda>b. dtype_fwd (band_type b)) (ds_bands ds)
         \<and> length (d_nodatavals st) = length (ds_bands ds)
         \<and> d_block_shapes st = None
         \<and> (let shapes = map (\<lambda>b. (snd (band_block b), fst (band_block b))) (ds_bands ds);
                 st' = st\<lparr>d_block_shapes := Some shapes\<rparr>
             in DatasetBase_block_shapes st = (Inr shapes, st')
              \<and> DatasetBase_block_shapes (DatasetBase_close st')
                    = (Inr shapes, DatasetBase_close st'))"
    using o len first again
    by (intro exI [of _ ds] exI [of _ c]) (simp add: st sd DatasetBase_init_def shapes_def Let_def)
next
  assume a: "RasterReader_start gdal_open (RasterReader_init path) = (Inr (), rst)"
  from reader_start_steps [OF a] obtain ds c w where
    o: "gdal_open path = Some ds"
    and rst: "rst = (RasterReader_init path)
                \<lparr>r_hds := Some ds, r_driver := Some (ds_driver ds),
                 r_count := int (length (ds_bands ds)), r_width := Some (ds_xsize ds),
                 r_height := Some (ds_ysize ds), r_shape := Some (ds_ysize ds, ds_xsize ds),
                 r_transform := Some (ds_geotransform ds), r_crs := Some c,
                 r_crs_wkt := Some w, r_closed := False\<rparr>"
    by blast
  define shapes where "shapes = map (\<lambda>b. (snd (band_block b), fst (band_block b))) (ds_bands ds)"
  have sh: "map (\<lambda>i. case block_size (get_raster_band ds (i + 1)) of (xsize, ysize) \<Rightarrow> (ysize, xsize))
              (range_upto (int (length (ds_bands ds)))) = shapes"
    using map_range_upto_bands
          [of "\<lambda>hb. case block_size hb of (xsize, ysize) \<Rightarrow> (ysize, xsize)" ds]
    unfolding shapes_def by (simp add: block_size_def case_prod_beta)
  have first: "RasterReader_block_shapes rst = (Inr shapes, rst\<lparr>r_block_shapes := shapes\<rparr>)"
    by (simp add: RasterReader_block_shapes_def rst RasterReader_init_def sh Let_def)
  have again: "shapes = [] \<or> RasterReader_block_shapes (RasterReader_close (rst\<lparr>r_block_shapes := shapes\<rparr>))
                 = (Inr shapes, RasterReader_close (rst\<lparr>r_block_shapes := shapes\<rparr>))"
    by (simp add: RasterReader_block_shapes_def RasterReader_close_def RasterReader_stop_def)
  show "\<exists>ds c. gdal_open path = Some ds \<and> r_hds rst = Some ds \<and> \<not> r_closed rst
         \<and> r_width rst = Some (ds_xsize ds) \<and> r_height rst = Some (ds_ysize ds)
         \<and> r_driver rst = Some (ds_driver ds) \<and> r_count rst = int (length (ds_bands ds))
         \<and> r_transform rst = Some (ds_geotransform ds) \<and> r_crs rst = Some c
         \<and> r_dtypes rst = [] \<and> r_nodatavals rst = [] \<and> r_block_shapes rst = []
         \<and> (let shapes = map (\<lambda>b. (snd (band_block b), fst (band_block b))) (ds_bands ds);
                 rst' = rst\<lparr>r_block_shapes := shapes\<rparr>
             in RasterReader_block_shapes rst = (Inr shapes, rst')
              \<and> (shapes = [] \<or> RasterReader_block_shapes (RasterReader_close rst')
                    = (Inr shapes, RasterReader_close rst')))"
    using o first again
    by (intro exI [of _ ds] exI [of _ c]) (simp add: rst RasterReader_init_def shapes_def Let_def)
qed


theorem start_populates_witness:
  "DatasetBase_start example_open (DatasetBase_init ''example.tif'' None) = (Inr (), example_dataset)
   \<and> RasterReader_start example_open (RasterReader_init ''example.tif'') = (Inr (), example_reader)
   \<and> d_block_shapes example_dataset = None
   \<and> DatasetBase_block_shapes example_dataset
       = (Inr [(1, 2)], example_dataset\<lparr>d_block_shapes := Some [(1, 2)]\<rparr>)
   \<and> r_block_shapes example_reader = []
   \<and> RasterReader_block_shapes example_reader
       = (Inr [(1, 2)], example_reader\<lparr>r_block_shapes := [(1, 2)]\<rparr>)"
  using start_populates [of example_open "''example.tif''" None example_dataset example_reader]
    example_dataset_start example_reader_start
  by (simp add: example_open_def example_ds_def Let_def)

text \<open>
  Claim C5 (accessors of a closed dataset). The claim says that each of the accessors
  fails with the closed-dataset error on a dataset without a handle and without a
  cached value. \<^verbatim>\<open>DatasetBase.count\<close> does, and so do the three band accessors
  of \<^verbatim>\<open>RasterReader\<close>, which test the handle before their loop. The band
  accessors of \<^verbatim>\<open>DatasetBase\<close> have no such test: on a dataset that was never
  started the cached count is 0, the loop over the bands runs no turn, and
  \<^verbatim>\<open>dtypes\<close>, \<^verbatim>\<open>block_shapes\<close> and \<^verbatim>\<open>nodatavals\<close> return an empty
  tuple.
\<close>

theorem unopened_dataset_dtypes_no_error:
  "d_hds (DatasetBase_init ''example.tif'' None) = None
   \<and> d_dtypes (DatasetBase_init ''example.tif'' None) = []
   \<and> DatasetBase_dtypes (DatasetBase_init ''example.tif'' None)
       = (Inr [], DatasetBase_init ''example.tif'' None)
   \<and> fst (DatasetBase_block_shapes (DatasetBase_init ''example.tif'' None)) = Inr []
   \<and> fst (DatasetBase_get_nodatavals (DatasetBase_init ''example.tif'' None)) = Inr []
   \<and> fst (DatasetBase_count (DatasetBase_init ''example.tif'' None)) = Inl ClosedDataset
   \<and> fst (RasterReader_dtypes (RasterReader_init ''example.tif'')) = Inl ClosedDataset"
  by (simp add: DatasetBase_init_def RasterReader_init_def DatasetBase_dtypes_def
        DatasetBase_block_shapes_def DatasetBase_get_nodatavals_def DatasetBase_count_def
        RasterReader_dtypes_def range_upto_def bind_simps)


lemma list_index_upto:
  assumes "1 \<le> x" and "x \<le> n"
  shows "list_index [1..n] x = x - 1"
proof -
  have split: "[1..n] = [1..x - 1] @ x # [x + 1..n]"
    using assms by (simp add: upto_split1 [of 1 x n] upto_rec1 [of x n])
  have "takeWhile (\<lambda>y. y \<noteq> x) ([1..x - 1] @ x # [x + 1..n])
          = [1..x - 1] @ takeWhile (\<lambda>y. y \<noteq> x) (x # [x + 1..n])"
    by (rule takeWhile_append2) auto
  then have "takeWhile (\<lambda>y. y \<noteq> x) [1..n] = [1..x - 1]"
    by (simp add: split)
  then show ?thesis using assms by (simp add: list_index_def)
qed

lemma indexes_known:
  assumes "r_count self \<noteq> 0"
  shows "RasterReader_indexes self = (Inr [1..r_count self], self)"
  using assms by (simp add: RasterReader_indexes_def RasterReader_count_def st_bind_def)

lemma dtypes_open:
  assumes "r_hds self = Some ds" and "RasterReader_dtypes self = (Inr dts, self')"
  shows "self' = self\<lparr>r_dtypes := dts\<rparr> \<and> r_hds self' = Some ds \<and> r_count self' = r_count self"
  using assms by (auto simp: RasterReader_dtypes_def Let_def split: if_splits)

text \<open>
  Claim C6 (buffer of the wrong element type). On an open dataset, for a band index
  within the bands and a buffer whose element type differs from that band's,
  \<^verbatim>\<open>read_band\<close> and \<^verbatim>\<open>write_band\<close> raise the mismatch error. They do so
  before the band handle is fetched and before any transfer function is called: the
  result is the same for every engine transfer \<open>rio\<close>, the handle and with it the
  stored values are the ones before the call, no array is returned, and the only
  attribute that may have changed is the cache of element types that the comparison
  filled.
\<close>

theorem dtype_mismatch_no_transfer:
  assumes "r_hds self = Some ds" and "1 \<le> bidx" and "bidx \<le> r_count self"
    and "RasterReader_dtypes self = (Inr dts, self')"
    and "py_index dts (bidx - 1) = Inr dt"
    and "buf_dtype out \<noteq> dt" and "buf_dtype src \<noteq> dt"
  shows "RasterReader_read_band rio self bidx (Some out) window = (Inl DtypeMismatch, self')
       \<and> RasterUpdater_write_band rio self bidx src window = (Inl DtypeMismatch, self')
       \<and> r_hds self' = r_hds self
       \<and> self' = self\<lparr>r_dtypes := dts\<rparr>"
proof -
  have c: "r_count self \<noteq> 0" using assms(2,3) by linarith
  have m: "bidx \<in> set [1..r_count self]" using assms(2,3) by simp
  have i: "list_index [1..r_count self] bidx = bidx - 1"
    using assms(2,3) by (rule list_index_upto)
  have rd: "RasterReader_read_band rio self bidx (Some out) window = (Inl DtypeMismatch, self')"
    using assms(1,4,5,6) m
    by (simp add: RasterReader_read_band_def indexes_known [OF c] i bind_simps
          cong: st_bind_weak_cong err_bind_weak_cong)
  have wr: "RasterUpdater_write_band rio self bidx src window = (Inl DtypeMismatch, self')"
    using assms(1,4,5,7) m
    by (simp add: RasterUpdater_write_band_def indexes_known [OF c] i bind_simps
          cong: st_bind_weak_cong err_bind_weak_cong)
  show ?thesis
    using rd wr dtypes_open [OF assms(1,4)] assms(1) by simp
qed

lemma example_reader_dtypes:
  "RasterReader_dtypes example_reader = (Inr [Ubyte], example_reader\<lparr>r_dtypes := [Ubyte]\<rparr>)"
  by (simp add: RasterReader_dtypes_def example_reader_def example_ds_def range_upto_def
        get_raster_band_def raster_data_type_def dtype_fwd_def)

theorem dtype_mismatch_no_transfer_witness:
  "RasterReader_read_band example_rio example_reader 1
      (Some \<lparr>buf_dtype = Float64, buf_data = [[0, 0], [0, 0]]\<rparr>) None
     = (Inl DtypeMismatch, example_reader\<lparr>r_dtypes := [Ubyte]\<rparr>)
   \<and> RasterUpdater_write_band example_rio example_reader 1
      \<lparr>buf_dtype = Float64, buf_data = [[9, 9], [9, 9]]\<rparr> None
     = (Inl DtypeMismatch, example_reader\<lparr>r_dtypes := [Ubyte]\<rparr>)
   \<and> r_hds (example_reader\<lparr>r_dtypes := [Ubyte]\<rparr>) = r_hds example_reader"
  using dtype_mismatch_no_transfer
    [of example_reader example_ds 1 "[Ubyte]" "example_reader\<lparr>r_dtypes := [Ubyte]\<rparr>" Ubyte
        "\<lparr>buf_dtype = Float64, buf_data = [[0, 0], [0, 0]]\<rparr>"
        "\<lparr>buf_dtype = Float64, buf_data = [[9, 9], [9, 9]]\<rparr>" example_rio None]
    example_reader_dtypes
  by (simp add: example_reader_def py_index_def)

end
